theory Spec2Isabelle
  imports Main "HOL-Library.Stream"
begin

section \<open>The Contracts service: data\<close>

text \<open>
  Modelled from the spec: the module \<^verbatim>\<open>./Contract\<close> (\<^verbatim>\<open>ContractDBType\<close>,
  \<^verbatim>\<open>ContractStatusEnum\<close>, \<^verbatim>\<open>ContractError\<close>) is imported by the event handler and is
  not among the sources. The spec's data model gives the contract its four fields and the
  status enumeration its two members, whose string values are the ones the pipe's filter
  pattern spells out (\<^verbatim>\<open>"DRAFT"\<close>, \<^verbatim>\<open>"APPROVED"\<close>).
\<close>

datatype ContractStatusEnum = DRAFT | APPROVED

fun status_string :: "ContractStatusEnum \<Rightarrow> string" where
  "status_string DRAFT = ''DRAFT''"
| "status_string APPROVED = ''APPROVED''"

record ContractDBType =
  contract_id :: "string option"
  property_id :: string
  contract_status :: ContractStatusEnum
  contract_last_modified_on :: string

record ContractError =
  ce_propertyId :: string
  ce_name :: string
  ce_message :: string
  ce_object :: nat

text \<open>Everything the two Lambda functions throw, or see thrown by the DynamoDB client.\<close>

record ContractStatusNotFoundException =
  error_message :: "string option"
  error_name :: string
  error_statusCode :: nat

datatype exn =
    Error string
  | TypeError string
  | RangeError string
  | ConditionalCheckFailedException
  | ValidationException
  | ServiceException string
  | ContractDBUpdateError ContractError
  | NotFound ContractStatusNotFoundException

section \<open>The DynamoDB table and its conditional update\<close>

text \<open>
  An item is a finite map from attribute names to attribute values; the table
  (partition key \<^verbatim>\<open>property_id\<close> of type string, as the stack declares it) maps the key's
  string to the item stored under it.
\<close>

datatype AttributeValue = S string | N string | BOOL bool

type_synonym item = "string \<rightharpoonup> AttributeValue"
type_synonym ddb_table = "string \<rightharpoonup> item"

text \<open>
  The expressions of a request, parsed: \<^verbatim>\<open>set a = :v, b = :w\<close> is a list of \<open>SET\<close>
  actions, \<^verbatim>\<open>attribute_exists(p) AND q = :v\<close> a condition tree. An operand is a
  document path or a placeholder of \<^verbatim>\<open>ExpressionAttributeValues\<close>.
\<close>

datatype operand = Path string | Placeholder string

datatype condition =
    attribute_exists string
  | Equals operand operand
  | AND condition condition

datatype action = SET string operand

record UpdateItemCommandInput =
  Key :: "string \<times> AttributeValue"
  UpdateExpression :: "action list"
  ConditionExpression :: condition
  ExpressionAttributeValues :: "(string \<times> AttributeValue) list"

record UpdateItemCommandOutput =
  httpStatusCode :: nat

fun resolve :: "(string \<rightharpoonup> AttributeValue) \<Rightarrow> item \<Rightarrow> operand \<Rightarrow> AttributeValue option" where
  "resolve vals it (Path p) = it p"
| "resolve vals it (Placeholder v) = vals v"

fun operand_ok :: "(string \<rightharpoonup> AttributeValue) \<Rightarrow> operand \<Rightarrow> bool" where
  "operand_ok vals (Path p) = True"
| "operand_ok vals (Placeholder v) = (vals v \<noteq> None)"

fun condition_ok :: "(string \<rightharpoonup> AttributeValue) \<Rightarrow> condition \<Rightarrow> bool" where
  "condition_ok vals (attribute_exists p) = True"
| "condition_ok vals (Equals a b) = (operand_ok vals a \<and> operand_ok vals b)"
| "condition_ok vals (AND c d) = (condition_ok vals c \<and> condition_ok vals d)"

fun action_ok :: "(string \<rightharpoonup> AttributeValue) \<Rightarrow> action \<Rightarrow> bool" where
  "action_ok vals (SET a v) = (a \<noteq> ''property_id'' \<and> operand_ok vals v)"

text \<open>A comparison whose operand is a path the item does not have is false.\<close>

fun holds :: "(string \<rightharpoonup> AttributeValue) \<Rightarrow> item \<Rightarrow> condition \<Rightarrow> bool" where
  "holds vals it (attribute_exists p) = (it p \<noteq> None)"
| "holds vals it (Equals a b) =
     (case (resolve vals it a, resolve vals it b) of
        (Some x, Some y) \<Rightarrow> x = y
      | _ \<Rightarrow> False)"
| "holds vals it (AND c d) = (holds vals it c \<and> holds vals it d)"

text \<open>
  The actions of one update expression read their operands from the item as it was
  before the request and write into the item being built.
\<close>

fun apply_actions ::
  "(string \<rightharpoonup> AttributeValue) \<Rightarrow> item \<Rightarrow> item \<Rightarrow> action list \<Rightarrow> item option" where
  "apply_actions vals orig acc [] = Some acc"
| "apply_actions vals orig acc (SET a v # acts) =
     (case resolve vals orig v of
        None \<Rightarrow> None
      | Some x \<Rightarrow> apply_actions vals orig (acc(a \<mapsto> x)) acts)"

text \<open>
  \<^verbatim>\<open>UpdateItem\<close>: a request whose key is not the table's, or is the empty string,
  or whose expressions use a placeholder without a value, is refused as invalid. The
  condition is evaluated against the stored item (an absent item has no attribute); when
  it fails nothing is written. When it holds the actions are
  applied to the stored item, or to a new item holding only the key when none is stored.
\<close>

definition UpdateItem ::
  "UpdateItemCommandInput \<Rightarrow> ddb_table \<Rightarrow> (exn + UpdateItemCommandOutput) \<times> ddb_table" where
  "UpdateItem inp tbl =
     (let vals = map_of (ExpressionAttributeValues inp) in
      case Key inp of
        (kname, S k) \<Rightarrow>
          if kname \<noteq> ''property_id'' \<or> k = []
             \<or> \<not> condition_ok vals (ConditionExpression inp)
             \<or> \<not> list_all (action_ok vals) (UpdateExpression inp)
          then (Inl ValidationException, tbl)
          else
            let stored = (case tbl k of None \<Rightarrow> Map.empty | Some it \<Rightarrow> it);
                base = (case tbl k of None \<Rightarrow> [''property_id'' \<mapsto> S k] | Some it \<Rightarrow> it) in
            if \<not> holds vals stored (ConditionExpression inp)
            then (Inl ConditionalCheckFailedException, tbl)
            else
              (case apply_actions vals stored base (UpdateExpression inp) of
                 None \<Rightarrow> (Inl ValidationException, tbl)
               | Some it' \<Rightarrow> (Inr \<lparr>httpStatusCode = 200\<rparr>, tbl(k \<mapsto> it')))
      | _ \<Rightarrow> (Inl ValidationException, tbl))"

section \<open>The world the handlers run in\<close>

text \<open>
  The table, the successive readings of \<^verbatim>\<open>new Date().toISOString()\<close>, the lines
  written to the log, and the fault (if any) every request to DynamoDB meets while the
  store is unavailable.
\<close>

record world =
  table :: ddb_table
  clock :: "string stream"
  console :: "string list"
  outage :: "string option"

definition console_log :: "string \<Rightarrow> world \<Rightarrow> world" where
  "console_log msg w = w\<lparr>console := console w @ [msg]\<rparr>"

definition new_Date_toISOString :: "world \<Rightarrow> string \<times> world" where
  "new_Date_toISOString w = (shd (clock w), w\<lparr>clock := stl (clock w)\<rparr>)"

definition send_UpdateItemCommand ::
  "UpdateItemCommandInput \<Rightarrow> world \<Rightarrow> (exn + UpdateItemCommandOutput) \<times> world" where
  "send_UpdateItemCommand inp w =
     (case outage w of
        Some fault \<Rightarrow> (Inl (ServiceException fault), w)
      | None \<Rightarrow>
          (case UpdateItem inp (table w) of
             (r, tbl') \<Rightarrow> (r, w\<lparr>table := tbl'\<rparr>)))"

section \<open>ContractEventHandlerFunction\<close>

text \<open>
  The handler exists in two copies, one logging with \<^verbatim>\<open>console.log\<close> and one through
  the logger, tracer and metrics of the powertools; they read and write the table in the
  same way. Both are modelled, the first one first; of every log line of the handler the
  model keeps the message.

  The decimal numeral of a number, for the message of \<^verbatim>\<open>ContractDBUpdateError\<close>.
\<close>

function string_of_nat :: "nat \<Rightarrow> string" where
  "string_of_nat n =
     (let last_digit = ''0123456789'' ! (n mod 10)
      in if n div 10 = 0 then [last_digit] else string_of_nat (n div 10) @ [last_digit])"
  by pat_completeness auto
termination
  by (relation "measure (\<lambda>n. n)") auto

declare string_of_nat.simps [simp del]

definition updateContract_input :: "ContractDBType \<Rightarrow> UpdateItemCommandInput" where
  "updateContract_input dbEntry =
     \<lparr>Key = (''property_id'', S (property_id dbEntry)),
      UpdateExpression =
        [SET ''contract_status'' (Placeholder '':t''),
         SET ''modified_date'' (Placeholder '':m'')],
      ConditionExpression =
        AND (attribute_exists ''property_id'')
            (Equals (Path ''contract_status'') (Placeholder '':DRAFT'')),
      ExpressionAttributeValues =
        [('':t'', S (status_string (contract_status dbEntry))),
         ('':m'', S (contract_last_modified_on dbEntry)),
         ('':DRAFT'', S (status_string DRAFT))]\<rparr>"

definition updateContract :: "ContractDBType \<Rightarrow> world \<Rightarrow> (exn + unit) \<times> world" where
  "updateContract contract w =
     (case new_Date_toISOString w of
        (modifiedDate, w1) \<Rightarrow>
          let dbEntry =
                \<lparr>contract_id = contract_id contract,
                 property_id = property_id contract,
                 contract_status = APPROVED,
                 contract_last_modified_on = modifiedDate\<rparr>;
              w2 = console_log ''Record to update'' w1
          in (case send_UpdateItemCommand (updateContract_input dbEntry) w2 of
                (Inl e, w3) \<Rightarrow> (Inl e, w3)
              | (Inr out, w3) \<Rightarrow>
                  if httpStatusCode out \<noteq> 200
                  then (Inl (ContractDBUpdateError
                          \<lparr>ce_propertyId = property_id dbEntry,
                           ce_name = ''ContractDBUpdateError'',
                           ce_message =
                             ''Response error code: '' @ string_of_nat (httpStatusCode out),
                           ce_object = httpStatusCode out\<rparr>), w3)
                  else (Inr (), console_log ''Updated record for contract'' w3)))"

text \<open>
  Of an SQS record the handler reads the body and the message attributes, a map from
  attribute names; a message may come without the attribute \<^verbatim>\<open>HttpMethod\<close>, and an
  attribute without a string value. \<^verbatim>\<open>JSON.parse\<close> belongs to the runtime: the
  handler takes it as a parameter, the function from a message body to the contract it
  denotes, \<open>None\<close> where \<^verbatim>\<open>JSON.parse\<close> throws.
\<close>

record SQSMessageAttribute =
  stringValue :: "string option"

record SQSRecord =
  body :: string
  messageAttributes :: "string \<rightharpoonup> SQSMessageAttribute"

record SQSEvent =
  Records :: "SQSRecord list"

definition parseRecord ::
  "(string \<Rightarrow> ContractDBType option) \<Rightarrow> SQSRecord \<Rightarrow> world \<Rightarrow> (exn + ContractDBType) \<times> world" where
  "parseRecord JSON_parse record w =
     (case JSON_parse (body record) of
        None \<Rightarrow>
          (Inl (Error ''Error parsing SQS Record''), console_log ''Error parsing SQS Record'' w)
      | Some contract \<Rightarrow> (Inr contract, console_log ''Returning contract'' w))"

text \<open>
  \<^verbatim>\<open>createContract\<close> is declared and throws; the handler never calls it.
\<close>

definition createContract :: "ContractDBType \<Rightarrow> world \<Rightarrow> (exn + unit) \<times> world" where
  "createContract contract w = (Inl (Error ''Not implemented''), w)"

text \<open>
  The loop of \<^verbatim>\<open>handler\<close> over \<^verbatim>\<open>event.Records\<close>, in the copy that logs to the
  console. A throw leaves the loop and rejects the handler's promise. The record is parsed
  first; reading \<^verbatim>\<open>messageAttributes.HttpMethod.stringValue\<close> of a record without that
  attribute throws a \<^verbatim>\<open>TypeError\<close>. The \<^verbatim>\<open>POST\<close> branch logs and has an empty
  \<^verbatim>\<open>try\<close> block; the default branch logs and goes on.
\<close>

definition stringValue_of_undefined :: string where
  \<open>stringValue_of_undefined = ''Cannot read properties of undefined (reading 'stringValue')''\<close>

fun handler_loop ::
  "(string \<Rightarrow> ContractDBType option) \<Rightarrow> SQSRecord list \<Rightarrow> world \<Rightarrow> (exn + unit) \<times> world" where
  "handler_loop JSON_parse [] w = (Inr (), w)"
| "handler_loop JSON_parse (sqsRecord # rest) w =
     (case parseRecord JSON_parse sqsRecord w of
        (Inl e, w1) \<Rightarrow> (Inl e, w1)
      | (Inr contract, w1) \<Rightarrow>
          (case messageAttributes sqsRecord ''HttpMethod'' of
             None \<Rightarrow> (Inl (TypeError stringValue_of_undefined), w1)
           | Some attribute \<Rightarrow>
               if stringValue attribute = Some ''POST'' then
                 handler_loop JSON_parse rest (console_log ''Creating a contract'' w1)
               else if stringValue attribute = Some ''PUT'' then
                 (case updateContract contract (console_log ''Updating a contract'' w1) of
                    (Inl e, w2) \<Rightarrow> (Inl e, console_log ''Error during DDB UPDATE'' w2)
                  | (Inr u, w2) \<Rightarrow> handler_loop JSON_parse rest w2)
               else
                 handler_loop JSON_parse rest
                   (console_log ''Error request not supported'' w1)))"

definition handler ::
  "(string \<Rightarrow> ContractDBType option) \<Rightarrow> SQSEvent \<Rightarrow> world \<Rightarrow> (exn + unit) \<times> world" where
  "handler JSON_parse event w = handler_loop JSON_parse (Records event) w"

subsection \<open>The copy instrumented with the powertools\<close>

text \<open>
  The second copy of the handler logs the same messages through the logger, records
  errors and metadata with the tracer, and counts updates with the metrics utility. Its
  \<^verbatim>\<open>updateContract\<close> is the one above followed, when the update is accepted, by
  \<^verbatim>\<open>metrics.addMetric('ContractUpdated', MetricUnits.Count, 1)\<close>; its
  \<^verbatim>\<open>parseRecord\<close> is the one above. The state of an invocation is the world together
  with the metrics stored so far.
\<close>

definition updateContract_powertools ::
  "ContractDBType \<Rightarrow> world \<times> string list \<Rightarrow> (exn + unit) \<times> (world \<times> string list)" where
  "updateContract_powertools contract s =
     (case s of
        (w, stored) \<Rightarrow>
          (case updateContract contract w of
             (Inl e, w1) \<Rightarrow> (Inl e, (w1, stored))
           | (Inr u, w1) \<Rightarrow> (Inr (), (w1, stored @ [''ContractUpdated'']))))"

fun handler_loop_powertools ::
  "(string \<Rightarrow> ContractDBType option) \<Rightarrow> SQSRecord list \<Rightarrow> world \<times> string list
     \<Rightarrow> (exn + unit) \<times> (world \<times> string list)" where
  "handler_loop_powertools JSON_parse [] s = (Inr (), s)"
| "handler_loop_powertools JSON_parse (sqsRecord # rest) (w, stored) =
     (case parseRecord JSON_parse sqsRecord w of
        (Inl e, w1) \<Rightarrow> (Inl e, (w1, stored))
      | (Inr contract, w1) \<Rightarrow>
          (case messageAttributes sqsRecord ''HttpMethod'' of
             None \<Rightarrow> (Inl (TypeError stringValue_of_undefined), (w1, stored))
           | Some attribute \<Rightarrow>
               if stringValue attribute = Some ''POST'' then
                 handler_loop_powertools JSON_parse rest
                   (console_log ''Creating a contract'' w1, stored)
               else if stringValue attribute = Some ''PUT'' then
                 (case updateContract_powertools contract
                         (console_log ''Updating a contract'' w1, stored) of
                    (Inl e, (w2, stored2)) \<Rightarrow>
                      (Inl e, (console_log ''Error during DDB UPDATE'' w2, stored2))
                  | (Inr u, s2) \<Rightarrow> handler_loop_powertools JSON_parse rest s2)
               else
                 handler_loop_powertools JSON_parse rest
                   (console_log ''Error request not supported'' w1, stored)))"

text \<open>
  The decorators of the handler. \<^verbatim>\<open>logger.injectLambdaContext({ logEvent: true })\<close>
  logs the event before the handler runs. \<^verbatim>\<open>metrics.logMetrics\<close> publishes the stored
  metrics when the handler has returned or thrown, and empties the store, so every
  invocation starts with no metric stored; with \<^verbatim>\<open>throwOnEmptyMetrics: true\<close>,
  publishing an empty store throws a \<^verbatim>\<open>RangeError\<close>, which takes the place of the
  handler's own result or error. The tracer rethrows what it records.
\<close>

definition publishStoredMetrics :: "world \<times> string list \<Rightarrow> (exn + unit) \<times> world" where
  "publishStoredMetrics s =
     (case s of
        (w, stored) \<Rightarrow>
          if stored = []
          then (Inl (RangeError ''The number of metrics recorded must be higher than zero''), w)
          else (Inr (), console_log (concat stored) w))"

definition handler_powertools ::
  "(string \<Rightarrow> ContractDBType option) \<Rightarrow> SQSEvent \<Rightarrow> world \<Rightarrow> (exn + unit) \<times> world" where
  "handler_powertools JSON_parse event w =
     (case handler_loop_powertools JSON_parse (Records event)
             (console_log ''Lambda invocation event'' w, []) of
        (r, s) \<Rightarrow>
          (case publishStoredMetrics s of
             (Inl e, w1) \<Rightarrow> (Inl e, w1)
           | (Inr u, w1) \<Rightarrow> (r, w1)))"

section \<open>ContractExistsCheckerFunction\<close>

text \<open>
  \<^verbatim>\<open>GetItem\<close> returns the stored item cut down to the projected attributes, as the list
  of the attributes it has; a key that is not the table's, or is the empty string, is
  refused as invalid.
\<close>

record GetItemCommandInput =
  GetItem_Key :: "string \<times> AttributeValue"
  ProjectionExpression :: "string list"

record GetItemCommandOutput =
  Item :: "(string \<times> AttributeValue) list option"

fun project :: "string list \<Rightarrow> item \<Rightarrow> (string \<times> AttributeValue) list" where
  "project [] it = []"
| "project (a # names) it =
     (case it a of
        None \<Rightarrow> project names it
      | Some v \<Rightarrow> (a, v) # project names it)"

definition GetItem :: "GetItemCommandInput \<Rightarrow> ddb_table \<Rightarrow> exn + GetItemCommandOutput" where
  "GetItem inp tbl =
     (case GetItem_Key inp of
        (kname, S k) \<Rightarrow>
          if kname \<noteq> ''property_id'' \<or> k = [] then Inl ValidationException
          else Inr \<lparr>Item = map_option (project (ProjectionExpression inp)) (tbl k)\<rparr>
      | _ \<Rightarrow> Inl ValidationException)"

definition send_GetItemCommand ::
  "GetItemCommandInput \<Rightarrow> world \<Rightarrow> (exn + GetItemCommandOutput) \<times> world" where
  "send_GetItemCommand inp w =
     (case outage w of
        Some fault \<Rightarrow> (Inl (ServiceException fault), w)
      | None \<Rightarrow> (GetItem inp (table w), w))"

text \<open>
  \<^verbatim>\<open>unmarshall\<close> turns every attribute value into the plain value it wraps. A number
  comes as its decimal text: \<^verbatim>\<open>unmarshall\<close> makes a JavaScript number of it when that
  number is within the safe integer range, or else a \<^verbatim>\<open>BigInt\<close>, or throws when the text
  is no integer. Which of the three happens is the library's arithmetic on the text; the
  checker takes it as the parameter \<open>convertNumber\<close>.
\<close>

datatype number_conversion = AsNumber | AsBigInt | Unconvertible

datatype jsvalue = JString string | JNumber string | JBigInt string | JBoolean bool

type_synonym ContractStatus = "(string \<times> jsvalue) list"

definition not_convertible :: "string \<Rightarrow> string" where
  \<open>not_convertible numString =
     numString @ '' can't be converted to BigInt. Set options.wrapNumbers to get string value.''\<close>

fun unmarshall_value :: "(string \<Rightarrow> number_conversion) \<Rightarrow> AttributeValue \<Rightarrow> exn + jsvalue" where
  "unmarshall_value convertNumber (S s) = Inr (JString s)"
| "unmarshall_value convertNumber (N n) =
     (case convertNumber n of
        AsNumber \<Rightarrow> Inr (JNumber n)
      | AsBigInt \<Rightarrow> Inr (JBigInt n)
      | Unconvertible \<Rightarrow> Inl (Error (not_convertible n)))"
| "unmarshall_value convertNumber (BOOL b) = Inr (JBoolean b)"

fun unmarshall ::
  "(string \<Rightarrow> number_conversion) \<Rightarrow> (string \<times> AttributeValue) list \<Rightarrow> exn + ContractStatus" where
  "unmarshall convertNumber [] = Inr []"
| "unmarshall convertNumber ((a, v) # rest) =
     (case unmarshall_value convertNumber v of
        Inl e \<Rightarrow> Inl e
      | Inr x \<Rightarrow>
          (case unmarshall convertNumber rest of
             Inl e \<Rightarrow> Inl e
           | Inr xs \<Rightarrow> Inr ((a, x) # xs)))"

definition new_ContractStatusNotFoundException ::
  "string option \<Rightarrow> ContractStatusNotFoundException" where
  "new_ContractStatusNotFoundException msg =
     \<lparr>error_message = msg,
      error_name = ''ContractStatusNotFoundException'',
      error_statusCode = 400\<rparr>"

text \<open>
  \<^verbatim>\<open>JSON.stringify\<close> throws a \<^verbatim>\<open>TypeError\<close> on a value that holds a \<^verbatim>\<open>BigInt\<close>.
  The body of a response is the text \<^verbatim>\<open>JSON.stringify\<close> makes of a value; the model
  keeps the value.
\<close>

fun is_BigInt :: "jsvalue \<Rightarrow> bool" where
  "is_BigInt (JBigInt n) = True"
| "is_BigInt v = False"

definition JSON_stringify_throws :: "ContractStatus option \<Rightarrow> bool" where
  "JSON_stringify_throws currentStatus =
     (case currentStatus of
        None \<Rightarrow> False
      | Some cs \<Rightarrow> list_ex is_BigInt (map snd cs))"

datatype stringified = JSON_stringify_status "ContractStatus option" | JSON_stringify_error exn

record StepFunctionsResponse =
  statusCode :: nat
  response_body :: stringified

record StepFunctionsInput =
  input_property_id :: string

record StepFunctionsEvent =
  Input :: StepFunctionsInput

definition getContractStatus ::
  "(string \<Rightarrow> number_conversion) \<Rightarrow> string \<Rightarrow> world \<Rightarrow> (exn + ContractStatus option) \<times> world" where
  "getContractStatus convertNumber propertyId w =
     (case send_GetItemCommand
             \<lparr>GetItem_Key = (''property_id'', S propertyId),
              ProjectionExpression = [''contract_id'', ''property_id'', ''contract_status'']\<rparr> w of
        (Inl e, w1) \<Rightarrow> (Inl e, w1)
      | (Inr data, w1) \<Rightarrow>
          (case Item data of
             None \<Rightarrow> (Inr None, w1)
           | Some it \<Rightarrow>
               (case unmarshall convertNumber it of
                  Inl e \<Rightarrow> (Inl e, w1)
                | Inr cs \<Rightarrow> (Inr (Some cs), w1))))"

text \<open>
  \<^verbatim>\<open>ContractExistsCheckerFunction.handler\<close>: whatever the \<^verbatim>\<open>try\<close> block throws is
  answered with status 500, be it thrown by the request to the table, by
  \<^verbatim>\<open>unmarshall\<close>, or by the \<^verbatim>\<open>JSON.stringify\<close> of the line that logs the current
  status; the not-found exception is thrown after the block, to the caller.
\<close>

definition checker_handler ::
  "(string \<Rightarrow> number_conversion) \<Rightarrow> StepFunctionsEvent \<Rightarrow> world
     \<Rightarrow> (exn + StepFunctionsResponse) \<times> world" where
  "checker_handler convertNumber event w =
     (let w1 = console_log ''Step Function event triggered'' w;
          detail = Input event;
          w2 = console_log ''Input'' w1;
          propertyId = input_property_id detail;
          w3 = console_log ''Get contract status for property'' w2
      in (case getContractStatus convertNumber propertyId w3 of
            (Inl error, w4) \<Rightarrow>
              (Inr \<lparr>statusCode = 500, response_body = JSON_stringify_error error\<rparr>,
               console_log ''Error during Contract Status Check'' w4)
          | (Inr currentStatus, w4) \<Rightarrow>
              if JSON_stringify_throws currentStatus
              then (Inr \<lparr>statusCode = 500,
                         response_body = JSON_stringify_error
                           (TypeError ''Do not know how to serialize a BigInt'')\<rparr>,
                    console_log ''Error during Contract Status Check'' w4)
              else
                let w5 = console_log ''Current status is'' w4 in
                if currentStatus = None
                   \<or> (case currentStatus of
                         None \<Rightarrow> True
                       | Some cs \<Rightarrow> map_of cs ''contract_id'' = None)
                   \<or> (case currentStatus of
                         None \<Rightarrow> True
                       | Some cs \<Rightarrow> map_of cs ''contract_id'' = Some (JString []))
                then (Inl (NotFound (new_ContractStatusNotFoundException None)),
                      console_log ''Contract not in system yet'' w5)
                else (Inr \<lparr>statusCode = 200,
                           response_body = JSON_stringify_status currentStatus\<rparr>,
                      w5)))"

section \<open>The pipe from the table's stream to the event bus\<close>

text \<open>
  A record of the table's stream (view type \<^verbatim>\<open>NEW_AND_OLD_IMAGES\<close>) and the leaves of
  its JSON document that a path such as \<^verbatim>\<open>$.dynamodb.NewImage.contract_status.S\<close> reaches.
\<close>

record DynamoDBStreamRecord =
  eventName :: string
  OldImage :: "item option"
  NewImage :: "item option"

fun attribute_leaf :: "AttributeValue \<Rightarrow> string \<Rightarrow> string option" where
  "attribute_leaf (S s) t = (if t = ''S'' then Some s else None)"
| "attribute_leaf (N n) t = (if t = ''N'' then Some n else None)"
| "attribute_leaf (BOOL b) t = None"

definition image_leaf :: "item option \<Rightarrow> string \<Rightarrow> string \<Rightarrow> string option" where
  "image_leaf img a t =
     (case img of
        None \<Rightarrow> None
      | Some it \<Rightarrow> (case it a of None \<Rightarrow> None | Some v \<Rightarrow> attribute_leaf v t))"

fun json_path :: "DynamoDBStreamRecord \<Rightarrow> string list \<Rightarrow> string option" where
  "json_path r [f] = (if f = ''eventName'' then Some (eventName r) else None)"
| "json_path r [d, img, a, t] =
     (if d \<noteq> ''dynamodb'' then None
      else if img = ''NewImage'' then image_leaf (NewImage r) a t
      else if img = ''OldImage'' then image_leaf (OldImage r) a t
      else None)"
| "json_path r p = None"

text \<open>
  An event pattern, flattened: every path it names must lead to a leaf whose value is one
  of the listed strings. An entry passes the filter criteria when one of the filters
  matches it.
\<close>

type_synonym event_pattern = "(string list \<times> string list) list"

definition matches :: "event_pattern \<Rightarrow> DynamoDBStreamRecord \<Rightarrow> bool" where
  "matches pat r =
     list_all (\<lambda>(path, allowed). case json_path r path of
                                   None \<Rightarrow> False
                                 | Some v \<Rightarrow> v \<in> set allowed) pat"

definition filterCriteria :: "event_pattern list" where
  "filterCriteria =
     [[([''eventName''], [''INSERT'', ''MODIFY'']),
       ([''dynamodb'', ''NewImage'', ''contract_status'', ''S''], [''DRAFT'', ''APPROVED''])]]"

text \<open>
  Modelled from the spec: the constant \<^verbatim>\<open>UNICORN_CONTRACTS_NAMESPACE\<close> of the module
  \<^verbatim>\<open>shared\<close> is not among the sources; the spec names the source of the events
  \<^verbatim>\<open>unicorn.contracts\<close>.
\<close>

definition UNICORN_CONTRACTS_NAMESPACE :: string where
  "UNICORN_CONTRACTS_NAMESPACE = ''unicorn.contracts''"

definition inputTemplate :: "(string \<times> string list) list" where
  "inputTemplate =
     [(''property_id'', [''dynamodb'', ''NewImage'', ''property_id'', ''S'']),
      (''contract_id'', [''dynamodb'', ''NewImage'', ''contract_id'', ''S'']),
      (''contract_status'', [''dynamodb'', ''NewImage'', ''contract_status'', ''S'']),
      (''contract_last_modified_on'',
         [''dynamodb'', ''NewImage'', ''contract_last_modified_on'', ''S''])]"

record PutEventsEntry =
  Source :: string
  DetailType :: string
  Detail :: "(string \<times> string option) list"

definition admitted :: "DynamoDBStreamRecord \<Rightarrow> bool" where
  "admitted r = list_ex (\<lambda>pat. matches pat r) filterCriteria"

definition transform :: "DynamoDBStreamRecord \<Rightarrow> PutEventsEntry" where
  "transform r =
     \<lparr>Source = UNICORN_CONTRACTS_NAMESPACE,
      DetailType = ''ContractStatusChanged'',
      Detail = map (\<lambda>(field, path). (field, json_path r path)) inputTemplate\<rparr>"

definition pipe :: "DynamoDBStreamRecord \<Rightarrow> PutEventsEntry list" where
  "pipe r = (if admitted r then [transform r] else [])"

text \<open>
  The source parameters of the pipe, and the poller they configure. The stream is read
  in batches of \<open>batchSize\<close> entries. A batch whose entries are all delivered is done in
  one attempt. When the delivery of a batch fails, \<^verbatim>\<open>AUTOMATIC_BISECT\<close> halves a batch
  of several entries and handles each half on its own; a batch that cannot be halved is
  retried \<open>maximumRetryAttempts\<close> times and then handed to the dead-letter queue, and the
  poller goes on with the next batch. The predicate \<open>fails\<close> tells the entries whose
  delivery fails at every attempt.
\<close>

record DynamoDBStreamParameters =
  maximumRetryAttempts :: nat
  deadLetterConfig :: "string option"
  startingPosition :: string
  onPartialBatchItemFailure :: string
  batchSize :: nat

definition dynamoDbStreamParameters :: DynamoDBStreamParameters where
  "dynamoDbStreamParameters =
     \<lparr>maximumRetryAttempts = 3,
      deadLetterConfig = Some ''ContractsTableStreamToEventPipeDLQ'',
      startingPosition = ''LATEST'',
      onPartialBatchItemFailure = ''AUTOMATIC_BISECT'',
      batchSize = 1\<rparr>"

record 'e delivery =
  delivered :: "'e list"
  dead_lettered :: "'e list"
  attempts :: "'e list list"

definition delivery_append :: "'e delivery \<Rightarrow> 'e delivery \<Rightarrow> 'e delivery" where
  "delivery_append a b =
     \<lparr>delivered = delivered a @ delivered b,
      dead_lettered = dead_lettered a @ dead_lettered b,
      attempts = attempts a @ attempts b\<rparr>"

function deliver_batch ::
  "DynamoDBStreamParameters \<Rightarrow> ('e \<Rightarrow> bool) \<Rightarrow> 'e list \<Rightarrow> 'e delivery" where
  "deliver_batch params fails batch =
     (if \<not> list_ex fails batch
      then \<lparr>delivered = batch, dead_lettered = [], attempts = [batch]\<rparr>
      else if onPartialBatchItemFailure params = ''AUTOMATIC_BISECT'' \<and> 1 < length batch
      then delivery_append \<lparr>delivered = [], dead_lettered = [], attempts = [batch]\<rparr>
             (delivery_append
                (deliver_batch params fails (take (length batch div 2) batch))
                (deliver_batch params fails (drop (length batch div 2) batch)))
      else \<lparr>delivered = [],
            dead_lettered = (if deadLetterConfig params = None then [] else batch),
            attempts = replicate (1 + maximumRetryAttempts params) batch\<rparr>)"
  by pat_completeness auto
termination
proof (relation "measure (\<lambda>(params, fails, batch). length batch)")
  show "wf (measure (\<lambda>(params, fails, batch). length batch))" by simp
next
  fix params :: DynamoDBStreamParameters and fails :: "'e \<Rightarrow> bool" and batch :: "'e list"
  assume "onPartialBatchItemFailure params = ''AUTOMATIC_BISECT'' \<and> 1 < length batch"
  then have "1 < length batch" by simp
  then show "((params, fails, take (length batch div 2) batch), params, fails, batch)
       \<in> measure (\<lambda>(params, fails, batch). length batch)"
    by simp
next
  fix params :: DynamoDBStreamParameters and fails :: "'e \<Rightarrow> bool" and batch :: "'e list"
  assume "onPartialBatchItemFailure params = ''AUTOMATIC_BISECT'' \<and> 1 < length batch"
  then have "1 < length batch" by simp
  then show "((params, fails, drop (length batch div 2) batch), params, fails, batch)
       \<in> measure (\<lambda>(params, fails, batch). length batch)"
    by simp
qed

function poll ::
  "DynamoDBStreamParameters \<Rightarrow> ('e \<Rightarrow> bool) \<Rightarrow> 'e list \<Rightarrow> 'e delivery" where
  "poll params fails entries =
     (if entries = [] \<or> batchSize params = 0
      then \<lparr>delivered = [], dead_lettered = [], attempts = []\<rparr>
      else delivery_append
             (deliver_batch params fails (take (batchSize params) entries))
             (poll params fails (drop (batchSize params) entries)))"
  by pat_completeness auto
termination
  by (relation "measure (\<lambda>(params, fails, entries). length entries)") auto

declare deliver_batch.simps [simp del]
declare poll.simps [simp del]

section \<open>Sample data\<close>

text \<open>Concrete items, worlds and messages on which the theorems below are exercised.\<close>

definition draft_item :: item where
  "draft_item =
     [''property_id'' \<mapsto> S ''p1'', ''contract_id'' \<mapsto> S ''c1'',
      ''contract_status'' \<mapsto> S ''DRAFT'',
      ''contract_last_modified_on'' \<mapsto> S ''2024-01-01T00:00:00.000Z'']"

definition approved_item :: item where
  "approved_item =
     [''property_id'' \<mapsto> S ''p1'', ''contract_id'' \<mapsto> S ''c1'',
      ''contract_status'' \<mapsto> S ''APPROVED'',
      ''contract_last_modified_on'' \<mapsto> S ''2024-01-01T00:00:00.000Z'']"

definition unnamed_item :: item where
  "unnamed_item =
     [''property_id'' \<mapsto> S ''p1'', ''contract_id'' \<mapsto> S [],
      ''contract_status'' \<mapsto> S ''DRAFT'']"

definition world_of :: "ddb_table \<Rightarrow> world" where
  "world_of tbl =
     \<lparr>table = tbl, clock = sconst ''2024-02-02T10:00:00.000Z'', console = [], outage = None\<rparr>"

definition command_p1 :: ContractDBType where
  "command_p1 =
     \<lparr>contract_id = Some ''c1'', property_id = ''p1'', contract_status = DRAFT,
      contract_last_modified_on = ''2024-01-01T00:00:00.000Z''\<rparr>"

text \<open>
  A stand-in for \<^verbatim>\<open>JSON.parse\<close> that agrees with it on the two bodies used below: the
  first is the JSON text of \<open>command_p1\<close>, the second is not JSON.
\<close>

definition body_p1 :: string where
  \<open>body_p1 = ''{"contract_id":"c1","property_id":"p1","contract_status":"DRAFT","contract_last_modified_on":"2024-01-01T00:00:00.000Z"}''\<close>

definition body_malformed :: string where
  "body_malformed = ''{not json''"

definition sample_JSON_parse :: "string \<Rightarrow> ContractDBType option" where
  "sample_JSON_parse b = (if b = body_p1 then Some command_p1 else None)"

text \<open>
  A stand-in for the library's conversion of numbers that agrees with it on the numbers
  used below: 9007199254740993 is an integer above the safe range, 42 is within it.
\<close>

definition sample_convertNumber :: "string \<Rightarrow> number_conversion" where
  "sample_convertNumber n = (if n = ''9007199254740993'' then AsBigInt else AsNumber)"

definition numbered_item :: item where
  "numbered_item =
     [''property_id'' \<mapsto> S ''p1'', ''contract_id'' \<mapsto> N ''9007199254740993'',
      ''contract_status'' \<mapsto> S ''DRAFT'']"

definition message :: "string \<Rightarrow> string \<Rightarrow> SQSRecord" where
  "message method b =
     \<lparr>body = b, messageAttributes = [''HttpMethod'' \<mapsto> \<lparr>stringValue = Some method\<rparr>]\<rparr>"


text \<open>
  The after-image of \<open>draft_item\<close> once the update of 2024-02-02 is accepted, and an
  after-image whose status is not one the pipe monitors.
\<close>

definition approved_image :: item where
  "approved_image =
     draft_item(''contract_status'' \<mapsto> S ''APPROVED'',
                ''modified_date'' \<mapsto> S ''2024-02-02T10:00:00.000Z'')"

definition cancelled_image :: item where
  "cancelled_image = draft_item(''contract_status'' \<mapsto> S ''CANCELLED'')"

section \<open>The conditional update of a contract\<close>

text \<open>
  The request \<open>updateContract\<close> builds, run against a table: the condition holds exactly
  when an item is stored under the key, has the key attribute, and its
  \<^verbatim>\<open>contract_status\<close> is the string \<^verbatim>\<open>DRAFT\<close>.
\<close>

lemma UpdateItem_updateContract_input:
  "UpdateItem (updateContract_input e) tbl =
     (if property_id e = [] then (Inl ValidationException, tbl) else
      case tbl (property_id e) of
        None \<Rightarrow> (Inl ConditionalCheckFailedException, tbl)
      | Some it \<Rightarrow>
          if it ''property_id'' \<noteq> None \<and> it ''contract_status'' = Some (S ''DRAFT'')
          then (Inr \<lparr>httpStatusCode = 200\<rparr>,
                tbl(property_id e \<mapsto>
                  it(''contract_status'' \<mapsto> S (status_string (contract_status e)),
                     ''modified_date'' \<mapsto> S (contract_last_modified_on e))))
          else (Inl ConditionalCheckFailedException, tbl))"
  by (simp add: UpdateItem_def updateContract_input_def Let_def split: option.splits)

lemma updateContract_cases:
  "updateContract c w =
     (let w2 = console_log ''Record to update'' (snd (new_Date_toISOString w)) in
      case outage w of
        Some fault \<Rightarrow> (Inl (ServiceException fault), w2)
      | None \<Rightarrow>
          if property_id c = [] then (Inl ValidationException, w2) else
          (case table w (property_id c) of
             None \<Rightarrow> (Inl ConditionalCheckFailedException, w2)
           | Some it \<Rightarrow>
               if it ''property_id'' \<noteq> None \<and> it ''contract_status'' = Some (S ''DRAFT'')
               then (Inr (),
                     console_log ''Updated record for contract''
                       (w2\<lparr>table := (table w)(property_id c \<mapsto>
                          it(''contract_status'' \<mapsto> S ''APPROVED'',
                             ''modified_date'' \<mapsto> S (shd (clock w))))\<rparr>))
               else (Inl ConditionalCheckFailedException, w2)))"
  by (simp add: updateContract_def new_Date_toISOString_def console_log_def
      send_UpdateItemCommand_def UpdateItem_updateContract_input Let_def
      split: option.splits)

lemma updateContract_accepted:
  assumes "fst (updateContract c w) = Inr ()"
  shows "\<exists>it. table w (property_id c) = Some it
            \<and> it ''contract_status'' = Some (S ''DRAFT'')
            \<and> table (snd (updateContract c w)) =
                (table w)(property_id c \<mapsto>
                   it(''contract_status'' \<mapsto> S ''APPROVED'',
                      ''modified_date'' \<mapsto> S (shd (clock w))))"
  using assms
  by (auto simp add: updateContract_cases new_Date_toISOString_def console_log_def Let_def
      split: option.splits if_splits)

lemma p1_draft_accepted:
  "fst (updateContract command_p1 (world_of [''p1'' \<mapsto> draft_item])) = Inr ()"
  by (simp add: updateContract_cases world_of_def command_p1_def draft_item_def Let_def)

lemma p1_approved_rejected:
  "fst (updateContract command_p1 (world_of [''p1'' \<mapsto> approved_item]))
     = Inl ConditionalCheckFailedException"
  by (simp add: updateContract_cases world_of_def command_p1_def approved_item_def Let_def)

lemma p1_absent_rejected:
  "fst (updateContract command_p1 (world_of Map.empty)) = Inl ConditionalCheckFailedException"
  by (simp add: updateContract_cases world_of_def command_p1_def Let_def)

text \<open>
  Claim C1. A write that sets a contract's status to \<^verbatim>\<open>APPROVED\<close> is accepted only if a
  record is stored for the property and its stored status is \<^verbatim>\<open>DRAFT\<close>. In every other
  state of the table, the absence of the record included, the write is rejected and the
  table is left as it was: no record is created or changed.
\<close>

theorem updateContract_guard:
  "(fst (updateContract c w) = Inr () \<longrightarrow>
      (\<exists>it. table w (property_id c) = Some it \<and> it ''contract_status'' = Some (S ''DRAFT'')))
   \<and> ((\<nexists>it. table w (property_id c) = Some it \<and> it ''contract_status'' = Some (S ''DRAFT''))
        \<longrightarrow> (\<exists>e. fst (updateContract c w) = Inl e)
            \<and> table (snd (updateContract c w)) = table w)"
  by (auto simp add: updateContract_cases new_Date_toISOString_def console_log_def Let_def
      split: option.splits)

theorem updateContract_guard_witness:
  "fst (updateContract command_p1 (world_of [''p1'' \<mapsto> draft_item])) = Inr ()
   \<and> (\<exists>it. table (world_of [''p1'' \<mapsto> draft_item]) ''p1'' = Some it
          \<and> it ''contract_status'' = Some (S ''DRAFT''))
   \<and> (\<nexists>it. table (world_of [''p1'' \<mapsto> approved_item]) ''p1'' = Some it
          \<and> it ''contract_status'' = Some (S ''DRAFT''))
   \<and> fst (updateContract command_p1 (world_of [''p1'' \<mapsto> approved_item]))
       = Inl ConditionalCheckFailedException
   \<and> table (snd (updateContract command_p1 (world_of [''p1'' \<mapsto> approved_item])))
       = table (world_of [''p1'' \<mapsto> approved_item])
   \<and> (\<nexists>it. table (world_of Map.empty) ''p1'' = Some it
          \<and> it ''contract_status'' = Some (S ''DRAFT''))
   \<and> fst (updateContract command_p1 (world_of Map.empty)) = Inl ConditionalCheckFailedException
   \<and> table (snd (updateContract command_p1 (world_of Map.empty))) = table (world_of Map.empty)"
proof -
  have p: "property_id command_p1 = ''p1''" by (simp add: command_p1_def)
  have a: "\<nexists>it. table (world_of [''p1'' \<mapsto> approved_item]) ''p1'' = Some it
          \<and> it ''contract_status'' = Some (S ''DRAFT'')"
    by (simp add: world_of_def approved_item_def)
  have e: "\<nexists>it. table (world_of Map.empty) ''p1'' = Some it
          \<and> it ''contract_status'' = Some (S ''DRAFT'')"
    by (simp add: world_of_def)
  from p1_draft_accepted p1_approved_rejected p1_absent_rejected a e
    updateContract_guard [of command_p1 "world_of [''p1'' \<mapsto> draft_item]"]
    updateContract_guard [of command_p1 "world_of [''p1'' \<mapsto> approved_item]"]
    updateContract_guard [of command_p1 "world_of Map.empty"]
  show ?thesis unfolding p by blast
qed

text \<open>
  Claim C10. An accepted update changes, in the stored item, only the attributes
  \<^verbatim>\<open>contract_status\<close> and \<^verbatim>\<open>modified_date\<close>: every other attribute, and so
  \<^verbatim>\<open>property_id\<close>, \<^verbatim>\<open>contract_id\<close> and \<^verbatim>\<open>contract_last_modified_on\<close>, keeps its stored
  value; the new timestamp is stored under \<^verbatim>\<open>modified_date\<close>; the items of the other
  properties are untouched.
\<close>

theorem updateContract_frame:
  assumes "fst (updateContract c w) = Inr ()"
  shows "\<exists>it it'. table w (property_id c) = Some it
           \<and> table (snd (updateContract c w)) (property_id c) = Some it'
           \<and> (\<forall>a. a \<noteq> ''contract_status'' \<and> a \<noteq> ''modified_date'' \<longrightarrow> it' a = it a)
           \<and> it' ''property_id'' = it ''property_id''
           \<and> it' ''contract_id'' = it ''contract_id''
           \<and> it' ''contract_last_modified_on'' = it ''contract_last_modified_on''
           \<and> it' ''contract_status'' = Some (S ''APPROVED'')
           \<and> it' ''modified_date'' = Some (S (shd (clock w)))
           \<and> (\<forall>k. k \<noteq> property_id c \<longrightarrow> table (snd (updateContract c w)) k = table w k)"
proof -
  from updateContract_accepted [OF assms] obtain it where
    it: "table w (property_id c) = Some it"
    and tbl: "table (snd (updateContract c w)) =
                (table w)(property_id c \<mapsto>
                   it(''contract_status'' \<mapsto> S ''APPROVED'',
                      ''modified_date'' \<mapsto> S (shd (clock w))))"
    by blast
  show ?thesis
    by (rule exI [of _ it], rule exI [of _ "it(''contract_status'' \<mapsto> S ''APPROVED'',
                      ''modified_date'' \<mapsto> S (shd (clock w)))"]) (simp add: it tbl)
qed

theorem updateContract_frame_witness:
  "fst (updateContract command_p1 (world_of [''p1'' \<mapsto> draft_item])) = Inr ()
   \<and> the (table (snd (updateContract command_p1 (world_of [''p1'' \<mapsto> draft_item]))) ''p1'')
        ''contract_id'' = Some (S ''c1'')
   \<and> the (table (snd (updateContract command_p1 (world_of [''p1'' \<mapsto> draft_item]))) ''p1'')
        ''contract_last_modified_on'' = Some (S ''2024-01-01T00:00:00.000Z'')
   \<and> the (table (snd (updateContract command_p1 (world_of [''p1'' \<mapsto> draft_item]))) ''p1'')
        ''modified_date'' = Some (S ''2024-02-02T10:00:00.000Z'')"
proof -
  let ?w = "world_of [''p1'' \<mapsto> draft_item]"
  have h: "fst (updateContract command_p1 ?w) = Inr ()"
    by (rule p1_draft_accepted)
  have p: "property_id command_p1 = ''p1''" by (simp add: command_p1_def)
  have t: "table ?w ''p1'' = Some draft_item"
    by (simp add: world_of_def)
  have d: "draft_item ''contract_id'' = Some (S ''c1'')" by (simp add: draft_item_def)
  have d': "draft_item ''contract_last_modified_on'' = Some (S ''2024-01-01T00:00:00.000Z'')"
    by (simp add: draft_item_def)
  have c: "shd (clock ?w) = ''2024-02-02T10:00:00.000Z''"
    by (simp add: world_of_def)
  from updateContract_frame [OF h] obtain it it' where
    1: "table ?w (property_id command_p1) = Some it"
    and 2: "table (snd (updateContract command_p1 ?w)) (property_id command_p1) = Some it'"
    and 3: "it' ''contract_id'' = it ''contract_id''"
    and 7: "it' ''contract_last_modified_on'' = it ''contract_last_modified_on''"
    and 4: "it' ''modified_date'' = Some (S (shd (clock ?w)))"
    by blast
  from 1 have i: "it = draft_item" by (simp only: p t option.inject)
  from 3 d i have 5: "it' ''contract_id'' = Some (S ''c1'')" by simp
  from 7 d' i have 8: "it' ''contract_last_modified_on'' = Some (S ''2024-01-01T00:00:00.000Z'')"
    by simp
  from 2 have 6: "the (table (snd (updateContract command_p1 ?w)) ''p1'') = it'"
    by (simp only: p option.sel)
  from h 5 8 6 4 c show ?thesis by (simp only: simp_thms)
qed

section \<open>The loop over the records of a batch\<close>

lemma table_console_log [simp]: "table (console_log m w) = table w"
  by (simp add: console_log_def)

lemma handler_loop_append:
  "handler_loop P (xs @ ys) w =
     (case handler_loop P xs w of
        (Inl e, w1) \<Rightarrow> (Inl e, w1)
      | (Inr u, w1) \<Rightarrow> handler_loop P ys w1)"
proof (induction xs arbitrary: w)
  case Nil
  show ?case by simp
next
  case (Cons x xs)
  show ?case
    by (simp add: Cons.IH split: prod.splits sum.splits option.splits)
qed



lemma parseRecord_None:
  "P (body r) = None \<Longrightarrow>
   parseRecord P r w =
     (Inl (Error ''Error parsing SQS Record''), console_log ''Error parsing SQS Record'' w)"
  by (simp add: parseRecord_def)

lemma parse_p1: "sample_JSON_parse body_p1 = Some command_p1"
  by (simp add: sample_JSON_parse_def)

lemma parse_malformed: "sample_JSON_parse body_malformed = None"
  by (simp add: sample_JSON_parse_def body_malformed_def body_p1_def)

lemma handler_PUT:
  assumes "P b = Some c"
  shows "handler P \<lparr>Records = [message ''PUT'' b]\<rparr> w =
     (case updateContract c (console_log ''Updating a contract''
                               (console_log ''Returning contract'' w)) of
        (Inl e, w2) \<Rightarrow> (Inl e, console_log ''Error during DDB UPDATE'' w2)
      | (Inr u, w2) \<Rightarrow> (Inr (), w2))"
  using assms
  by (simp add: handler_def message_def parseRecord_def split: prod.splits sum.splits)

lemma updateContract_p1_draft:
  "table w ''p1'' = Some draft_item \<Longrightarrow> outage w = None \<Longrightarrow>
   fst (updateContract command_p1 w) = Inr ()
   \<and> table (snd (updateContract command_p1 w)) =
       (table w)(''p1'' \<mapsto> draft_item(''contract_status'' \<mapsto> S ''APPROVED'',
                                    ''modified_date'' \<mapsto> S (shd (clock w))))"
  by (simp add: updateContract_cases command_p1_def Let_def draft_item_def
      new_Date_toISOString_def console_log_def)

lemma two_creates:
  "handler sample_JSON_parse
     \<lparr>Records = [message ''POST'' body_p1, message ''POST'' body_p1]\<rparr> w
   = (Inr (), console_log ''Creating a contract'' (console_log ''Returning contract''
        (console_log ''Creating a contract'' (console_log ''Returning contract'' w))))"
  by (simp add: handler_def message_def parseRecord_def parse_p1)

lemma creates_powertools:
  "handler_powertools sample_JSON_parse
     \<lparr>Records = [message ''POST'' body_p1, message ''POST'' body_p1]\<rparr> w
   = (Inl (RangeError ''The number of metrics recorded must be higher than zero''),
      console_log ''Creating a contract'' (console_log ''Returning contract''
        (console_log ''Creating a contract'' (console_log ''Returning contract''
           (console_log ''Lambda invocation event'' w)))))"
  "handler_powertools sample_JSON_parse \<lparr>Records = [message ''POST'' body_p1]\<rparr> w
   = (Inl (RangeError ''The number of metrics recorded must be higher than zero''),
      console_log ''Creating a contract'' (console_log ''Returning contract''
        (console_log ''Lambda invocation event'' w)))"
  by (simp_all add: handler_powertools_def publishStoredMetrics_def message_def
      parseRecord_def parse_p1)


text \<open>
  Claim C2, evaluated where the code departs from it. The table holds a \<^verbatim>\<open>DRAFT\<close>
  contract for \<^verbatim>\<open>p1\<close> last modified on 2024-01-01; an update arrives on 2024-02-02.
  The handler accepts it and the stored status becomes \<^verbatim>\<open>APPROVED\<close>, but the fresh
  timestamp is stored under \<^verbatim>\<open>modified_date\<close>: the stored
  \<^verbatim>\<open>contract_last_modified_on\<close> is still the one of 2024-01-01.
\<close>

theorem update_keeps_contract_last_modified_on:
  "fst (handler sample_JSON_parse \<lparr>Records = [message ''PUT'' body_p1]\<rparr>
          (world_of [''p1'' \<mapsto> draft_item])) = Inr ()
   \<and> table (snd (handler sample_JSON_parse \<lparr>Records = [message ''PUT'' body_p1]\<rparr>
          (world_of [''p1'' \<mapsto> draft_item]))) ''p1''
       = Some (draft_item(''contract_status'' \<mapsto> S ''APPROVED'',
                          ''modified_date'' \<mapsto> S ''2024-02-02T10:00:00.000Z''))
   \<and> draft_item ''contract_last_modified_on'' = Some (S ''2024-01-01T00:00:00.000Z'')
   \<and> (draft_item(''contract_status'' \<mapsto> S ''APPROVED'',
                  ''modified_date'' \<mapsto> S ''2024-02-02T10:00:00.000Z''))
         ''contract_last_modified_on'' = Some (S ''2024-01-01T00:00:00.000Z'')"
proof -
  let ?w = "console_log ''Updating a contract''
              (console_log ''Returning contract'' (world_of [''p1'' \<mapsto> draft_item]))"
  have t: "table ?w ''p1'' = Some draft_item" by (simp add: world_of_def)
  have o: "outage ?w = None" by (simp add: world_of_def console_log_def)
  have c: "shd (clock ?w) = ''2024-02-02T10:00:00.000Z''"
    by (simp add: world_of_def console_log_def)
  have tw: "table ?w = [''p1'' \<mapsto> draft_item]" by (simp add: world_of_def)
  from updateContract_p1_draft [OF t o]
  have u: "fst (updateContract command_p1 ?w) = Inr ()"
    and v: "table (snd (updateContract command_p1 ?w)) ''p1'' =
       Some (draft_item(''contract_status'' \<mapsto> S ''APPROVED'',
                        ''modified_date'' \<mapsto> S ''2024-02-02T10:00:00.000Z''))"
    by (simp_all only: c tw fun_upd_same)
  have d: "draft_item ''contract_last_modified_on'' = Some (S ''2024-01-01T00:00:00.000Z'')"
    by (simp add: draft_item_def)
  obtain r w2 where eq: "updateContract command_p1 ?w = (r, w2)"
    by (cases "updateContract command_p1 ?w")
  from u eq have r: "r = Inr ()" by simp
  from v eq have w2: "table w2 ''p1'' =
       Some (draft_item(''contract_status'' \<mapsto> S ''APPROVED'',
                        ''modified_date'' \<mapsto> S ''2024-02-02T10:00:00.000Z''))"
    by simp
  have "handler sample_JSON_parse \<lparr>Records = [message ''PUT'' body_p1]\<rparr>
          (world_of [''p1'' \<mapsto> draft_item]) = (Inr (), w2)"
    by (simp add: handler_PUT [of sample_JSON_parse body_p1 command_p1, OF parse_p1] eq r)
  with w2 d show ?thesis by simp
qed

text \<open>
  Claim C3, evaluated where the code departs from it: creates for \<^verbatim>\<open>p1\<close> on an empty
  table. In the copy that logs to the console two creates in a row return without an
  error, and no record is stored for \<^verbatim>\<open>p1\<close>: nothing is committed and the second
  create is not rejected as a duplicate. In the copy with the powertools nothing is
  stored either, and already a single create is rejected, with the \<^verbatim>\<open>RangeError\<close> of
  the metrics decorator.
\<close>

theorem create_stores_nothing:
  "fst (handler sample_JSON_parse
          \<lparr>Records = [message ''POST'' body_p1, message ''POST'' body_p1]\<rparr>
          (world_of Map.empty)) = Inr ()
   \<and> table (snd (handler sample_JSON_parse
          \<lparr>Records = [message ''POST'' body_p1, message ''POST'' body_p1]\<rparr>
          (world_of Map.empty))) ''p1'' = None
   \<and> fst (handler_powertools sample_JSON_parse \<lparr>Records = [message ''POST'' body_p1]\<rparr>
          (world_of Map.empty))
       = Inl (RangeError ''The number of metrics recorded must be higher than zero'')
   \<and> table (snd (handler_powertools sample_JSON_parse
          \<lparr>Records = [message ''POST'' body_p1]\<rparr> (world_of Map.empty))) ''p1'' = None
   \<and> table (snd (handler_powertools sample_JSON_parse
          \<lparr>Records = [message ''POST'' body_p1, message ''POST'' body_p1]\<rparr>
          (world_of Map.empty))) ''p1'' = None"
  by (simp add: two_creates creates_powertools world_of_def)




text \<open>
  Claim C8, as the code has it. A record whose body does not parse makes the handler
  throw the parsing error at that record: the records before it have been handled, the
  records after it are not looked at.
\<close>

theorem malformed_record_aborts_batch:
  assumes "P (body r) = None"
  shows "handler P \<lparr>Records = pre @ r # post\<rparr> w =
           (case handler P \<lparr>Records = pre\<rparr> w of
              (Inl e, w1) \<Rightarrow> (Inl e, w1)
            | (Inr u, w1) \<Rightarrow>
                (Inl (Error ''Error parsing SQS Record''),
                 console_log ''Error parsing SQS Record'' w1))"
  using assms
  by (simp add: handler_def handler_loop_append parseRecord_None
      split: prod.splits sum.splits)

theorem malformed_record_aborts_batch_witness:
  "sample_JSON_parse (body (message ''PUT'' body_malformed)) = None
   \<and> handler sample_JSON_parse
        \<lparr>Records = [message ''PUT'' body_malformed, message ''PUT'' body_p1]\<rparr>
        (world_of [''p1'' \<mapsto> draft_item])
      = (Inl (Error ''Error parsing SQS Record''),
         console_log ''Error parsing SQS Record'' (world_of [''p1'' \<mapsto> draft_item]))"
proof -
  have n: "sample_JSON_parse (body (message ''PUT'' body_malformed)) = None"
    by (simp add: message_def parse_malformed)
  have e: "\<And>w. handler sample_JSON_parse \<lparr>Records = []\<rparr> w = (Inr (), w)"
    by (simp add: handler_def)
  from malformed_record_aborts_batch
      [where P = sample_JSON_parse and r = "message ''PUT'' body_malformed" and pre = "[]"
         and post = "[message ''PUT'' body_p1]" and w = "world_of [''p1'' \<mapsto> draft_item]",
       OF n] n
  show ?thesis by (simp add: e)
qed

text \<open>
  Against claim C8 as stated: a batch of a malformed record followed by a valid update of
  the \<^verbatim>\<open>DRAFT\<close> contract \<^verbatim>\<open>p1\<close>. The handler fails with the parsing error and the
  sibling is not processed: \<^verbatim>\<open>p1\<close> is still stored as it was.
\<close>

theorem malformed_record_stops_siblings:
  "fst (handler sample_JSON_parse
          \<lparr>Records = [message ''PUT'' body_malformed, message ''PUT'' body_p1]\<rparr>
          (world_of [''p1'' \<mapsto> draft_item])) = Inl (Error ''Error parsing SQS Record'')
   \<and> table (snd (handler sample_JSON_parse
          \<lparr>Records = [message ''PUT'' body_malformed, message ''PUT'' body_p1]\<rparr>
          (world_of [''p1'' \<mapsto> draft_item]))) ''p1'' = Some draft_item"
  by (simp add: handler_def message_def parseRecord_def parse_malformed world_of_def)

section \<open>The existence check\<close>

lemma project_mem:
  "(a, v) \<in> set (project names it) \<longleftrightarrow> a \<in> set names \<and> it a = Some v"
  by (induction names) (auto split: option.splits)

lemma map_of_project:
  "map_of (project names it) a = (if a \<in> set names then it a else None)"
  by (induction names) (auto split: option.splits)

lemma unmarshall_map_of:
  "unmarshall cn xs = Inr cs \<Longrightarrow>
   map_of cs a =
     (case map_of xs a of
        None \<Rightarrow> None
      | Some v \<Rightarrow> (case unmarshall_value cn v of Inl e \<Rightarrow> None | Inr x \<Rightarrow> Some x))"
proof (induction xs arbitrary: cs)
  case Nil
  then show ?case by simp
next
  case (Cons x xs)
  obtain b v where x: "x = (b, v)" by (cases x)
  from Cons.prems obtain y ys where y: "unmarshall_value cn v = Inr y"
    and ys: "unmarshall cn xs = Inr ys" and cs: "cs = (b, y) # ys"
    by (auto simp add: x split: sum.splits)
  from Cons.IH [OF ys] show ?case by (simp add: x cs y)
qed

lemma unmarshall_throws:
  "(\<exists>e. unmarshall cn xs = Inl e) \<longleftrightarrow> (\<exists>x \<in> set xs. \<exists>n. snd x = N n \<and> cn n = Unconvertible)"
proof (induction xs)
  case Nil
  show ?case by simp
next
  case (Cons x xs)
  obtain b v where x: "x = (b, v)" by (cases x)
  have v: "(\<exists>e. unmarshall_value cn v = Inl e) \<longleftrightarrow> (\<exists>n. v = N n \<and> cn n = Unconvertible)"
    by (cases v) (auto split: number_conversion.splits)
  from Cons.IH v show ?case
    by (auto simp add: x split: sum.splits)
qed

lemma unmarshall_BigInt:
  "unmarshall cn xs = Inr cs \<Longrightarrow>
   list_ex is_BigInt (map snd cs) \<longleftrightarrow> (\<exists>x \<in> set xs. \<exists>n. snd x = N n \<and> cn n = AsBigInt)"
proof (induction xs arbitrary: cs)
  case Nil
  then show ?case by simp
next
  case (Cons x xs)
  obtain b v where x: "x = (b, v)" by (cases x)
  from Cons.prems obtain y ys where y: "unmarshall_value cn v = Inr y"
    and ys: "unmarshall cn xs = Inr ys" and cs: "cs = (b, y) # ys"
    by (auto simp add: x split: sum.splits)
  from y have v: "is_BigInt y \<longleftrightarrow> (\<exists>n. v = N n \<and> cn n = AsBigInt)"
    by (cases v) (auto split: number_conversion.splits)
  from Cons.IH [OF ys] v show ?case by (auto simp add: x cs)
qed

lemma getContractStatus_cases:
  "getContractStatus cn pid w =
     (case outage w of
        Some fault \<Rightarrow> (Inl (ServiceException fault), w)
      | None \<Rightarrow>
          if pid = [] then (Inl ValidationException, w)
          else
            (case table w pid of
               None \<Rightarrow> (Inr None, w)
             | Some it \<Rightarrow>
                 (case unmarshall cn
                         (project [''contract_id'', ''property_id'', ''contract_status''] it) of
                    Inl e \<Rightarrow> (Inl e, w)
                  | Inr cs \<Rightarrow> (Inr (Some cs), w))))"
  by (simp add: getContractStatus_def send_GetItemCommand_def GetItem_def
      split: option.splits sum.splits)

lemma checker_handler_table: "table (snd (checker_handler cn ev w)) = table w"
  by (simp add: checker_handler_def getContractStatus_cases Let_def
      split: option.splits sum.splits)

lemma checker_handler_fault:
  "outage w = Some fault \<Longrightarrow>
   fst (checker_handler cn ev w)
     = Inr \<lparr>statusCode = 500, response_body = JSON_stringify_error (ServiceException fault)\<rparr>"
  by (simp add: checker_handler_def getContractStatus_cases Let_def console_log_def)

lemma checker_handler_empty_key:
  "outage w = None \<Longrightarrow>
   fst (checker_handler cn \<lparr>Input = \<lparr>input_property_id = []\<rparr>\<rparr> w)
     = Inr \<lparr>statusCode = 500, response_body = JSON_stringify_error ValidationException\<rparr>"
  by (simp add: checker_handler_def getContractStatus_cases Let_def console_log_def)

lemma checker_handler_absent:
  "outage w = None \<Longrightarrow> pid \<noteq> [] \<Longrightarrow> table w pid = None \<Longrightarrow>
   fst (checker_handler cn \<lparr>Input = \<lparr>input_property_id = pid\<rparr>\<rparr> w)
     = Inl (NotFound (new_ContractStatusNotFoundException None))"
  by (simp add: checker_handler_def getContractStatus_cases Let_def console_log_def
      JSON_stringify_throws_def)

lemma checker_handler_stored:
  assumes "outage w = None" and "pid \<noteq> []" and "table w pid = Some it"
    and "unmarshall cn (project [''contract_id'', ''property_id'', ''contract_status''] it)
           = Inr cs"
    and "\<not> list_ex is_BigInt (map snd cs)"
  shows "fst (checker_handler cn \<lparr>Input = \<lparr>input_property_id = pid\<rparr>\<rparr> w) =
           (if map_of cs ''contract_id'' = None \<or> map_of cs ''contract_id'' = Some (JString [])
            then Inl (NotFound (new_ContractStatusNotFoundException None))
            else Inr \<lparr>statusCode = 200, response_body = JSON_stringify_status (Some cs)\<rparr>)"
  using assms
  by (simp add: checker_handler_def getContractStatus_cases Let_def console_log_def
      JSON_stringify_throws_def)

lemma checker_handler_unsafe:
  assumes "outage w = None" and "pid \<noteq> []" and "table w pid = Some it"
    and "a \<in> {''contract_id'', ''property_id'', ''contract_status''}"
    and "it a = Some (N n)" and "cn n \<noteq> AsNumber"
  shows "\<exists>b. fst (checker_handler cn \<lparr>Input = \<lparr>input_property_id = pid\<rparr>\<rparr> w)
              = Inr \<lparr>statusCode = 500, response_body = b\<rparr>"
proof -
  let ?xs = "project [''contract_id'', ''property_id'', ''contract_status''] it"
  from assms have m: "(a, N n) \<in> set ?xs" by (simp add: project_mem del: project.simps)
  show ?thesis
  proof (cases "unmarshall cn ?xs")
    case (Inl e)
    with assms show ?thesis
      by (simp add: checker_handler_def getContractStatus_cases Let_def console_log_def)
  next
    case (Inr cs)
    then have "\<not> (\<exists>e. unmarshall cn ?xs = Inl e)" by simp
    with m have "cn n \<noteq> Unconvertible" unfolding unmarshall_throws
      by (metis snd_conv)
    with \<open>cn n \<noteq> AsNumber\<close> have "cn n = AsBigInt" by (cases "cn n") simp_all
    with m have "\<exists>x \<in> set ?xs. \<exists>n. snd x = N n \<and> cn n = AsBigInt"
      by (metis snd_conv)
    with Inr have "list_ex is_BigInt (map snd cs)" by (simp add: unmarshall_BigInt del: project.simps)
    with assms Inr show ?thesis
      by (simp add: checker_handler_def getContractStatus_cases Let_def console_log_def
          JSON_stringify_throws_def)
  qed
qed

lemma unmarshall_safe:
  assumes "\<forall>a n. a \<in> {''contract_id'', ''property_id'', ''contract_status''}
                 \<and> it a = Some (N n) \<longrightarrow> cn n = AsNumber"
  shows "\<exists>cs. unmarshall cn (project [''contract_id'', ''property_id'', ''contract_status''] it)
                 = Inr cs
              \<and> \<not> list_ex is_BigInt (map snd cs)
              \<and> (map_of cs ''contract_id'' = None \<longleftrightarrow> it ''contract_id'' = None)
              \<and> (map_of cs ''contract_id'' = Some (JString []) \<longleftrightarrow> it ''contract_id'' = Some (S []))
              \<and> (\<forall>a s. a \<in> {''contract_id'', ''property_id'', ''contract_status''}
                        \<and> it a = Some (S s) \<longrightarrow> map_of cs a = Some (JString s))"
proof -
  let ?xs = "project [''contract_id'', ''property_id'', ''contract_status''] it"
  have safe: "cn n = AsNumber" if "(a, N n) \<in> set ?xs" for a n
  proof (rule assms [rule_format])
    from that show "a \<in> {''contract_id'', ''property_id'', ''contract_status''}
                    \<and> it a = Some (N n)"
      by (simp add: project_mem del: project.simps)
  qed
  have "\<not> (\<exists>x \<in> set ?xs. \<exists>n. snd x = N n \<and> cn n = Unconvertible)"
  proof
    assume "\<exists>x \<in> set ?xs. \<exists>n. snd x = N n \<and> cn n = Unconvertible"
    then obtain x n where x: "x \<in> set ?xs" "snd x = N n" and u: "cn n = Unconvertible"
      by blast
    from x have "(fst x, N n) \<in> set ?xs" by (metis prod.collapse)
    from safe [OF this] u show False by simp
  qed
  then have "\<not> (\<exists>e. unmarshall cn ?xs = Inl e)" by (simp add: unmarshall_throws del: project.simps)
  then obtain cs where cs: "unmarshall cn ?xs = Inr cs" by (cases "unmarshall cn ?xs") auto
  have "\<not> (\<exists>x \<in> set ?xs. \<exists>n. snd x = N n \<and> cn n = AsBigInt)"
  proof
    assume "\<exists>x \<in> set ?xs. \<exists>n. snd x = N n \<and> cn n = AsBigInt"
    then obtain x n where x: "x \<in> set ?xs" "snd x = N n" and u: "cn n = AsBigInt"
      by blast
    from x have "(fst x, N n) \<in> set ?xs" by (metis prod.collapse)
    from safe [OF this] u show False by simp
  qed
  with cs have nb: "\<not> list_ex is_BigInt (map snd cs)" by (simp add: unmarshall_BigInt del: project.simps)
  have look: "map_of cs a =
       (case it a of
          None \<Rightarrow> None
        | Some v \<Rightarrow> (case unmarshall_value cn v of Inl e \<Rightarrow> None | Inr x \<Rightarrow> Some x))"
    if "a \<in> {''contract_id'', ''property_id'', ''contract_status''}" for a
    using that by (simp add: unmarshall_map_of [OF cs] map_of_project del: project.simps)
  have cid: "map_of cs ''contract_id'' =
       (case it ''contract_id'' of
          None \<Rightarrow> None
        | Some v \<Rightarrow> (case unmarshall_value cn v of Inl e \<Rightarrow> None | Inr x \<Rightarrow> Some x))"
    by (rule look) simp
  have num: "cn n = AsNumber" if "it ''contract_id'' = Some (N n)" for n
  proof (rule assms [rule_format])
    from that show "''contract_id'' \<in> {''contract_id'', ''property_id'', ''contract_status''}
                    \<and> it ''contract_id'' = Some (N n)"
      by simp
  qed
  have 1: "map_of cs ''contract_id'' = None \<longleftrightarrow> it ''contract_id'' = None"
  proof (cases "it ''contract_id''")
    case None
    then show ?thesis by (simp add: cid)
  next
    case (Some v)
    with num show ?thesis by (cases v) (simp_all add: cid)
  qed
  have 2: "map_of cs ''contract_id'' = Some (JString []) \<longleftrightarrow> it ''contract_id'' = Some (S [])"
  proof (cases "it ''contract_id''")
    case None
    then show ?thesis by (simp add: cid)
  next
    case (Some v)
    with num show ?thesis by (cases v) (simp_all add: cid)
  qed
  have 3: "\<forall>a s. a \<in> {''contract_id'', ''property_id'', ''contract_status''}
                        \<and> it a = Some (S s) \<longrightarrow> map_of cs a = Some (JString s)"
  proof (intro allI impI)
    fix a s
    assume h: "a \<in> {''contract_id'', ''property_id'', ''contract_status''} \<and> it a = Some (S s)"
    then have "map_of cs a =
       (case it a of
          None \<Rightarrow> None
        | Some v \<Rightarrow> (case unmarshall_value cn v of Inl e \<Rightarrow> None | Inr x \<Rightarrow> Some x))"
      by (intro look) simp
    with h show "map_of cs a = Some (JString s)" by simp
  qed
  show ?thesis
  proof (intro exI conjI)
    show "unmarshall cn ?xs = Inr cs" by (rule cs)
    show "\<not> list_ex is_BigInt (map snd cs)" by (rule nb)
    show "map_of cs ''contract_id'' = None \<longleftrightarrow> it ''contract_id'' = None" by (rule 1)
    show "map_of cs ''contract_id'' = Some (JString []) \<longleftrightarrow> it ''contract_id'' = Some (S [])"
      by (rule 2)
    show "\<forall>a s. a \<in> {''contract_id'', ''property_id'', ''contract_status''}
                        \<and> it a = Some (S s) \<longrightarrow> map_of cs a = Some (JString s)"
      by (rule 3)
  qed
qed


lemma sample_items_hold_no_number:
  "draft_item a \<noteq> Some (N n)" "unnamed_item a \<noteq> Some (N n)"
  by (simp_all add: draft_item_def unnamed_item_def)

lemma sample_world_of [simp]: "outage (world_of tbl) = None" "table (world_of tbl) = tbl"
  by (simp_all add: world_of_def)

lemma checker_numbered_item:
  "fst (checker_handler sample_convertNumber \<lparr>Input = \<lparr>input_property_id = ''p1''\<rparr>\<rparr>
          (world_of [''p1'' \<mapsto> numbered_item]))
     = Inr \<lparr>statusCode = 500,
            response_body = JSON_stringify_error
              (TypeError ''Do not know how to serialize a BigInt'')\<rparr>"
  by (simp add: checker_handler_def getContractStatus_cases Let_def console_log_def
      JSON_stringify_throws_def numbered_item_def sample_convertNumber_def)

text \<open>
  Claim C6, as the code has it. For a property id that is not the empty string, while
  the store answers and every number among the three attributes read converts to a
  JavaScript number: the existence check throws the not-found exception (a type of its
  own, carrying status code 400) exactly when no record is stored for the property or
  the stored record has no \<^verbatim>\<open>contract_id\<close> attribute or has the empty string there;
  otherwise it returns status 200 with a body that carries the stored
  \<^verbatim>\<open>contract_status\<close>, \<^verbatim>\<open>contract_id\<close> and \<^verbatim>\<open>property_id\<close>. Whatever is thrown inside
  the \<^verbatim>\<open>try\<close> block is answered with status 500: a fault of the store, the rejection
  of the empty property id, a stored number that does not convert. The check reads only:
  the table is as it was.
\<close>

theorem checker_handler_outcome:
  "(outage w = None \<and> pid \<noteq> []
      \<and> (\<forall>it a n. table w pid = Some it
             \<and> a \<in> {''contract_id'', ''property_id'', ''contract_status''}
             \<and> it a = Some (N n) \<longrightarrow> cn n = AsNumber) \<longrightarrow>
      (fst (checker_handler cn \<lparr>Input = \<lparr>input_property_id = pid\<rparr>\<rparr> w)
           = Inl (NotFound (new_ContractStatusNotFoundException None))
         \<longleftrightarrow> (table w pid = None
              \<or> (\<exists>it. table w pid = Some it
                       \<and> (it ''contract_id'' = None \<or> it ''contract_id'' = Some (S [])))))
      \<and> (\<forall>it. table w pid = Some it \<and> it ''contract_id'' \<noteq> None
                \<and> it ''contract_id'' \<noteq> Some (S []) \<longrightarrow>
             (\<exists>cs. fst (checker_handler cn \<lparr>Input = \<lparr>input_property_id = pid\<rparr>\<rparr> w)
                       = Inr \<lparr>statusCode = 200,
                              response_body = JSON_stringify_status (Some cs)\<rparr>
                   \<and> (\<forall>a s. a \<in> {''contract_id'', ''property_id'', ''contract_status''}
                          \<and> it a = Some (S s) \<longrightarrow> map_of cs a = Some (JString s)))))
   \<and> (\<forall>fault. outage w = Some fault \<longrightarrow>
          fst (checker_handler cn \<lparr>Input = \<lparr>input_property_id = pid\<rparr>\<rparr> w)
            = Inr \<lparr>statusCode = 500,
                   response_body = JSON_stringify_error (ServiceException fault)\<rparr>)
   \<and> (outage w = None \<and> pid = [] \<longrightarrow>
          fst (checker_handler cn \<lparr>Input = \<lparr>input_property_id = pid\<rparr>\<rparr> w)
            = Inr \<lparr>statusCode = 500, response_body = JSON_stringify_error ValidationException\<rparr>)
   \<and> (outage w = None \<and> pid \<noteq> []
        \<and> (\<exists>it a n. table w pid = Some it
               \<and> a \<in> {''contract_id'', ''property_id'', ''contract_status''}
               \<and> it a = Some (N n) \<and> cn n \<noteq> AsNumber) \<longrightarrow>
          (\<exists>b. fst (checker_handler cn \<lparr>Input = \<lparr>input_property_id = pid\<rparr>\<rparr> w)
                 = Inr \<lparr>statusCode = 500, response_body = b\<rparr>))
   \<and> error_statusCode (new_ContractStatusNotFoundException None) = 400
   \<and> table (snd (checker_handler cn \<lparr>Input = \<lparr>input_property_id = pid\<rparr>\<rparr> w)) = table w"
proof -
  define A :: "string set" where "A = {''contract_id'', ''property_id'', ''contract_status''}"
  let ?ev = "\<lparr>Input = \<lparr>input_property_id = pid\<rparr>\<rparr>"
  let ?r = "fst (checker_handler cn ?ev w)"
  let ?nf = "Inl (NotFound (new_ContractStatusNotFoundException None))
               :: exn + StepFunctionsResponse"
  let ?lacks = "table w pid = None
              \<or> (\<exists>it. table w pid = Some it
                       \<and> (it ''contract_id'' = None \<or> it ''contract_id'' = Some (S [])))"
  note safe_values = unmarshall_safe [folded A_def]
  note unsafe_value = checker_handler_unsafe [folded A_def]
  have stored: "(?r = ?nf \<longleftrightarrow> it ''contract_id'' = None \<or> it ''contract_id'' = Some (S []))
      \<and> (it ''contract_id'' \<noteq> None \<and> it ''contract_id'' \<noteq> Some (S []) \<longrightarrow>
            (\<exists>cs. ?r = Inr \<lparr>statusCode = 200, response_body = JSON_stringify_status (Some cs)\<rparr>
                 \<and> (\<forall>a s. a \<in> A \<and> it a = Some (S s) \<longrightarrow> map_of cs a = Some (JString s))))"
    if o: "outage w = None" and p: "pid \<noteq> []" and t: "table w pid = Some it"
      and safe: "\<forall>a n. a \<in> A \<and> it a = Some (N n) \<longrightarrow> cn n = AsNumber" for it
  proof -
    from safe_values [OF safe] obtain cs where
      cs: "unmarshall cn (project [''contract_id'', ''property_id'', ''contract_status''] it)
             = Inr cs"
      and nb: "\<not> list_ex is_BigInt (map snd cs)"
      and 1: "map_of cs ''contract_id'' = None \<longleftrightarrow> it ''contract_id'' = None"
      and 2: "map_of cs ''contract_id'' = Some (JString []) \<longleftrightarrow> it ''contract_id'' = Some (S [])"
      and 3: "\<forall>a s. a \<in> A \<and> it a = Some (S s) \<longrightarrow> map_of cs a = Some (JString s)"
      by (elim exE conjE)
    note r = checker_handler_stored [OF o p t cs nb]
    show ?thesis
    proof (cases "it ''contract_id'' = None \<or> it ''contract_id'' = Some (S [])")
      case True
      with 1 2 have "map_of cs ''contract_id'' = None
                     \<or> map_of cs ''contract_id'' = Some (JString [])" by simp
      with r have "?r = ?nf" by simp
      with True show ?thesis by auto
    next
      case False
      with 1 2 have "\<not> (map_of cs ''contract_id'' = None
                     \<or> map_of cs ''contract_id'' = Some (JString []))" by simp
      with r have ok: "?r = Inr \<lparr>statusCode = 200,
                                   response_body = JSON_stringify_status (Some cs)\<rparr>"
        by simp
      then have ne: "?r \<noteq> ?nf" by simp
      have "\<exists>cs'. ?r = Inr \<lparr>statusCode = 200,
                               response_body = JSON_stringify_status (Some cs')\<rparr>
                   \<and> (\<forall>a s. a \<in> A \<and> it a = Some (S s) \<longrightarrow> map_of cs' a = Some (JString s))"
        using ok 3 by (intro exI [of _ cs] conjI)
      with False ne show ?thesis by auto
    qed
  qed
  have answered: "(?r = ?nf \<longleftrightarrow> ?lacks)
      \<and> (\<forall>it. table w pid = Some it \<and> it ''contract_id'' \<noteq> None
                \<and> it ''contract_id'' \<noteq> Some (S []) \<longrightarrow>
             (\<exists>cs. ?r = Inr \<lparr>statusCode = 200,
                              response_body = JSON_stringify_status (Some cs)\<rparr>
                   \<and> (\<forall>a s. a \<in> A \<and> it a = Some (S s) \<longrightarrow> map_of cs a = Some (JString s))))"
    if h: "outage w = None \<and> pid \<noteq> []
      \<and> (\<forall>it a n. table w pid = Some it \<and> a \<in> A \<and> it a = Some (N n) \<longrightarrow> cn n = AsNumber)"
  proof -
    from h have o: "outage w = None" by (rule conjunct1)
    from h have p: "pid \<noteq> []" by (rule conjunct2 [THEN conjunct1])
    from h have s: "\<forall>it a n. table w pid = Some it \<and> a \<in> A \<and> it a = Some (N n)
                      \<longrightarrow> cn n = AsNumber"
      by (rule conjunct2 [THEN conjunct2])
    show ?thesis
    proof (cases "table w pid")
      case None
      from checker_handler_absent [OF o p None] have "?r = ?nf" .
      with None show ?thesis by simp
    next
      case (Some it)
      from s Some have "\<forall>a n. a \<in> A \<and> it a = Some (N n) \<longrightarrow> cn n = AsNumber"
        by simp
      from stored [OF o p Some this] Some show ?thesis by simp
    qed
  qed
  have unsafe: "\<exists>b. ?r = Inr \<lparr>statusCode = 500, response_body = b\<rparr>"
    if "outage w = None \<and> pid \<noteq> []
        \<and> (\<exists>it a n. table w pid = Some it \<and> a \<in> A \<and> it a = Some (N n) \<and> cn n \<noteq> AsNumber)"
  proof -
    from that obtain it a n where "outage w = None" "pid \<noteq> []" "table w pid = Some it"
      "a \<in> A" "it a = Some (N n)" "cn n \<noteq> AsNumber"
      by (elim conjE exE)
    then show ?thesis by (rule unsafe_value)
  qed
  have fault: "\<forall>fault. outage w = Some fault \<longrightarrow>
          ?r = Inr \<lparr>statusCode = 500,
                     response_body = JSON_stringify_error (ServiceException fault)\<rparr>"
    by (simp add: checker_handler_fault)
  have empty: "outage w = None \<and> pid = [] \<longrightarrow>
          ?r = Inr \<lparr>statusCode = 500, response_body = JSON_stringify_error ValidationException\<rparr>"
    by (simp add: checker_handler_empty_key)
  have code: "error_statusCode (new_ContractStatusNotFoundException None) = 400"
    by (simp add: new_ContractStatusNotFoundException_def)
  show ?thesis
    unfolding A_def [symmetric]
    apply (intro conjI)
         apply (rule impI, rule answered, assumption)
        apply (rule fault)
       apply (rule empty)
      apply (rule impI, rule unsafe, assumption)
     apply (rule code)
    apply (rule checker_handler_table)
    done
qed

theorem checker_handler_outcome_witness:
  "fst (checker_handler sample_convertNumber \<lparr>Input = \<lparr>input_property_id = ''p1''\<rparr>\<rparr>
          (world_of Map.empty))
     = Inl (NotFound (new_ContractStatusNotFoundException None))
   \<and> fst (checker_handler sample_convertNumber \<lparr>Input = \<lparr>input_property_id = ''p1''\<rparr>\<rparr>
            (world_of [''p1'' \<mapsto> unnamed_item]))
       = Inl (NotFound (new_ContractStatusNotFoundException None))
   \<and> (\<exists>cs. fst (checker_handler sample_convertNumber
                    \<lparr>Input = \<lparr>input_property_id = ''p1''\<rparr>\<rparr> (world_of [''p1'' \<mapsto> draft_item]))
              = Inr \<lparr>statusCode = 200, response_body = JSON_stringify_status (Some cs)\<rparr>
          \<and> map_of cs ''contract_status'' = Some (JString ''DRAFT''))
   \<and> fst (checker_handler sample_convertNumber \<lparr>Input = \<lparr>input_property_id = ''p1''\<rparr>\<rparr>
            ((world_of [''p1'' \<mapsto> draft_item])\<lparr>outage := Some ''RequestTimeout''\<rparr>))
       = Inr \<lparr>statusCode = 500,
              response_body = JSON_stringify_error (ServiceException ''RequestTimeout'')\<rparr>
   \<and> fst (checker_handler sample_convertNumber \<lparr>Input = \<lparr>input_property_id = []\<rparr>\<rparr>
            (world_of Map.empty))
       = Inr \<lparr>statusCode = 500, response_body = JSON_stringify_error ValidationException\<rparr>
   \<and> (\<exists>b. fst (checker_handler sample_convertNumber \<lparr>Input = \<lparr>input_property_id = ''p1''\<rparr>\<rparr>
                   (world_of [''p1'' \<mapsto> numbered_item]))
              = Inr \<lparr>statusCode = 500, response_body = b\<rparr>)"
proof -
  define A :: "string set" where "A = {''contract_id'', ''property_id'', ''contract_status''}"
  have cs: "''contract_status'' \<in> A" and ci: "''contract_id'' \<in> A" by (simp_all add: A_def)
  note t = checker_handler_outcome [folded A_def]
  have p: "''p1'' \<noteq> []" by simp
  have u: "unnamed_item ''contract_id'' = Some (S [])" by (simp add: unnamed_item_def)
  have d: "draft_item ''contract_id'' = Some (S ''c1'')"
    "draft_item ''contract_status'' = Some (S ''DRAFT'')" by (simp_all add: draft_item_def)
  have n: "numbered_item ''contract_id'' = Some (N ''9007199254740993'')"
    by (simp add: numbered_item_def)
  have b: "sample_convertNumber ''9007199254740993'' \<noteq> AsNumber"
    by (simp add: sample_convertNumber_def)
  from t [of "world_of Map.empty" "''p1''" sample_convertNumber]
  have 1: "fst (checker_handler sample_convertNumber \<lparr>Input = \<lparr>input_property_id = ''p1''\<rparr>\<rparr>
          (world_of Map.empty))
     = Inl (NotFound (new_ContractStatusNotFoundException None))"
    by simp
  from t [of "world_of [''p1'' \<mapsto> unnamed_item]" "''p1''" sample_convertNumber]
  have 2: "fst (checker_handler sample_convertNumber \<lparr>Input = \<lparr>input_property_id = ''p1''\<rparr>\<rparr>
            (world_of [''p1'' \<mapsto> unnamed_item]))
       = Inl (NotFound (new_ContractStatusNotFoundException None))"
    by (simp add: sample_items_hold_no_number u)
  from t [of "world_of [''p1'' \<mapsto> draft_item]" "''p1''" sample_convertNumber]
  have "\<exists>cs. fst (checker_handler sample_convertNumber
                    \<lparr>Input = \<lparr>input_property_id = ''p1''\<rparr>\<rparr> (world_of [''p1'' \<mapsto> draft_item]))
              = Inr \<lparr>statusCode = 200, response_body = JSON_stringify_status (Some cs)\<rparr>
          \<and> (\<forall>a s. a \<in> A \<and> draft_item a = Some (S s) \<longrightarrow> map_of cs a = Some (JString s))"
    by (simp add: sample_items_hold_no_number d)
  then obtain cs where ok: "fst (checker_handler sample_convertNumber
                    \<lparr>Input = \<lparr>input_property_id = ''p1''\<rparr>\<rparr> (world_of [''p1'' \<mapsto> draft_item]))
              = Inr \<lparr>statusCode = 200, response_body = JSON_stringify_status (Some cs)\<rparr>"
    and v: "\<forall>a s. a \<in> A \<and> draft_item a = Some (S s) \<longrightarrow> map_of cs a = Some (JString s)"
    by (elim exE conjE)
  from v cs d have "map_of cs ''contract_status'' = Some (JString ''DRAFT'')" by simp
  with ok have 3: "\<exists>cs. fst (checker_handler sample_convertNumber
                    \<lparr>Input = \<lparr>input_property_id = ''p1''\<rparr>\<rparr> (world_of [''p1'' \<mapsto> draft_item]))
              = Inr \<lparr>statusCode = 200, response_body = JSON_stringify_status (Some cs)\<rparr>
          \<and> map_of cs ''contract_status'' = Some (JString ''DRAFT'')"
    by (intro exI [of _ cs] conjI)
  from t [of "(world_of [''p1'' \<mapsto> draft_item])\<lparr>outage := Some ''RequestTimeout''\<rparr>" "''p1''"
      sample_convertNumber]
  have 4: "fst (checker_handler sample_convertNumber \<lparr>Input = \<lparr>input_property_id = ''p1''\<rparr>\<rparr>
            ((world_of [''p1'' \<mapsto> draft_item])\<lparr>outage := Some ''RequestTimeout''\<rparr>))
       = Inr \<lparr>statusCode = 500,
              response_body = JSON_stringify_error (ServiceException ''RequestTimeout'')\<rparr>"
    by simp
  from t [of "world_of Map.empty" "[]" sample_convertNumber]
  have 5: "fst (checker_handler sample_convertNumber \<lparr>Input = \<lparr>input_property_id = []\<rparr>\<rparr>
            (world_of Map.empty))
       = Inr \<lparr>statusCode = 500, response_body = JSON_stringify_error ValidationException\<rparr>"
    by simp
  have "\<exists>it a n. table (world_of [''p1'' \<mapsto> numbered_item]) ''p1'' = Some it
               \<and> a \<in> A \<and> it a = Some (N n) \<and> sample_convertNumber n \<noteq> AsNumber"
    using ci n b by (intro exI [of _ numbered_item] exI [of _ "''contract_id''"]
        exI [of _ "''9007199254740993''"]) simp
  with t [of "world_of [''p1'' \<mapsto> numbered_item]" "''p1''" sample_convertNumber]
  have 6: "\<exists>b. fst (checker_handler sample_convertNumber \<lparr>Input = \<lparr>input_property_id = ''p1''\<rparr>\<rparr>
                   (world_of [''p1'' \<mapsto> numbered_item]))
              = Inr \<lparr>statusCode = 500, response_body = b\<rparr>"
    by simp
  from 1 2 3 4 5 6 show ?thesis by (intro conjI)
qed

text \<open>
  Against claim C6 as stated. No record is stored for the empty property id, and the
  check answers with status 500, not with the not-found outcome. A record is stored for
  \<^verbatim>\<open>p1\<close> with a \<^verbatim>\<open>contract_id\<close>, a number above the safe integer range, and the check
  answers with status 500, not with a success.
\<close>

theorem checker_answers_500:
  "table (world_of Map.empty) [] = None
   \<and> fst (checker_handler sample_convertNumber \<lparr>Input = \<lparr>input_property_id = []\<rparr>\<rparr>
            (world_of Map.empty))
       = Inr \<lparr>statusCode = 500, response_body = JSON_stringify_error ValidationException\<rparr>
   \<and> table (world_of [''p1'' \<mapsto> numbered_item]) ''p1'' = Some numbered_item
   \<and> numbered_item ''contract_id'' = Some (N ''9007199254740993'')
   \<and> fst (checker_handler sample_convertNumber \<lparr>Input = \<lparr>input_property_id = ''p1''\<rparr>\<rparr>
            (world_of [''p1'' \<mapsto> numbered_item]))
       = Inr \<lparr>statusCode = 500,
              response_body = JSON_stringify_error
                (TypeError ''Do not know how to serialize a BigInt'')\<rparr>"
  by (simp add: checker_handler_empty_key checker_numbered_item)
     (simp add: numbered_item_def)

section \<open>The filter and the input template of the pipe\<close>

lemma image_leaf_S:
  "image_leaf img a ''S'' = Some s \<longleftrightarrow> (\<exists>it. img = Some it \<and> it a = Some (S s))"
proof (cases img)
  case None
  then show ?thesis by (simp add: image_leaf_def)
next
  case (Some it)
  show ?thesis
  proof (cases "it a")
    case None
    with Some show ?thesis by (simp add: image_leaf_def)
  next
    case (Some v)
    with \<open>img = Some it\<close> show ?thesis by (cases v) (simp_all add: image_leaf_def)
  qed
qed

lemma admitted_iff:
  "admitted r \<longleftrightarrow>
     (eventName r = ''INSERT'' \<or> eventName r = ''MODIFY'')
     \<and> (\<exists>it. NewImage r = Some it
            \<and> (it ''contract_status'' = Some (S ''DRAFT'')
                \<or> it ''contract_status'' = Some (S ''APPROVED'')))"
proof -
  have "admitted r \<longleftrightarrow>
     (eventName r = ''INSERT'' \<or> eventName r = ''MODIFY'')
     \<and> (image_leaf (NewImage r) ''contract_status'' ''S'' = Some ''DRAFT''
        \<or> image_leaf (NewImage r) ''contract_status'' ''S'' = Some ''APPROVED'')"
    by (auto simp add: admitted_def filterCriteria_def matches_def split: option.splits)
  then show ?thesis by (auto simp add: image_leaf_S)
qed

lemma transform_eq:
  "transform r =
     \<lparr>Source = ''unicorn.contracts'',
      DetailType = ''ContractStatusChanged'',
      Detail =
        [(''property_id'', image_leaf (NewImage r) ''property_id'' ''S''),
         (''contract_id'', image_leaf (NewImage r) ''contract_id'' ''S''),
         (''contract_status'', image_leaf (NewImage r) ''contract_status'' ''S''),
         (''contract_last_modified_on'',
            image_leaf (NewImage r) ''contract_last_modified_on'' ''S'')]\<rparr>"
  by (simp add: transform_def inputTemplate_def UNICORN_CONTRACTS_NAMESPACE_def)

lemma approved_image_status: "approved_image ''contract_status'' = Some (S ''APPROVED'')"
  by (simp add: approved_image_def)

lemma cancelled_image_status: "cancelled_image ''contract_status'' = Some (S ''CANCELLED'')"
  by (simp add: cancelled_image_def)

text \<open>
  Claim C5. The pipe lets a change-log entry through exactly when its event name is
  \<^verbatim>\<open>INSERT\<close> or \<^verbatim>\<open>MODIFY\<close> and the \<^verbatim>\<open>contract_status\<close> of its after-image is the
  string \<^verbatim>\<open>DRAFT\<close> or \<^verbatim>\<open>APPROVED\<close>; an entry whose after-image status is not one of
  the two produces no event.
\<close>

theorem pipe_admits_monitored_statuses:
  "(pipe r \<noteq> [] \<longleftrightarrow>
      (eventName r = ''INSERT'' \<or> eventName r = ''MODIFY'')
      \<and> (\<exists>it s. NewImage r = Some it \<and> it ''contract_status'' = Some (S s)
                 \<and> (s = ''DRAFT'' \<or> s = ''APPROVED'')))
   \<and> ((\<nexists>it s. NewImage r = Some it \<and> it ''contract_status'' = Some (S s)
                 \<and> (s = ''DRAFT'' \<or> s = ''APPROVED''))
        \<longrightarrow> pipe r = [])"
  by (auto simp add: pipe_def admitted_iff)

theorem pipe_admits_monitored_statuses_witness:
  "pipe \<lparr>eventName = ''MODIFY'', OldImage = Some draft_item, NewImage = Some approved_image\<rparr>
     \<noteq> []
   \<and> (\<nexists>it s. NewImage \<lparr>eventName = ''MODIFY'', OldImage = Some draft_item,
                         NewImage = Some cancelled_image\<rparr> = Some it
              \<and> it ''contract_status'' = Some (S s) \<and> (s = ''DRAFT'' \<or> s = ''APPROVED''))
   \<and> pipe \<lparr>eventName = ''MODIFY'', OldImage = Some draft_item, NewImage = Some cancelled_image\<rparr>
       = []
   \<and> pipe \<lparr>eventName = ''REMOVE'', OldImage = Some draft_item, NewImage = None\<rparr> = []"
proof -
  let ?a = "\<lparr>eventName = ''MODIFY'', OldImage = Some draft_item, NewImage = Some approved_image\<rparr>"
  let ?c = "\<lparr>eventName = ''MODIFY'', OldImage = Some draft_item, NewImage = Some cancelled_image\<rparr>"
  let ?d = "\<lparr>eventName = ''REMOVE'', OldImage = Some draft_item, NewImage = None :: item option\<rparr>"
  have n: "\<nexists>it s. NewImage ?c = Some it
              \<and> it ''contract_status'' = Some (S s) \<and> (s = ''DRAFT'' \<or> s = ''APPROVED'')"
    by (simp add: cancelled_image_status)
  from pipe_admits_monitored_statuses [of ?a] have 1: "pipe ?a \<noteq> []"
    by (simp add: approved_image_status)
  from pipe_admits_monitored_statuses [of ?c] n have 2: "pipe ?c = []"
    by blast
  from pipe_admits_monitored_statuses [of ?d] have 3: "pipe ?d = []"
    by simp
  from 1 n 2 3 show ?thesis by blast
qed

text \<open>
  Claim C4. An admitted entry produces exactly one event, with source
  \<^verbatim>\<open>unicorn.contracts\<close> and detail type \<^verbatim>\<open>ContractStatusChanged\<close>; its detail has the
  four fields \<^verbatim>\<open>property_id\<close>, \<^verbatim>\<open>contract_id\<close>, \<^verbatim>\<open>contract_status\<close> and
  \<^verbatim>\<open>contract_last_modified_on\<close>, each holding the string the after-image stores under
  that name.
\<close>

theorem pipe_event_of_admitted_entry:
  assumes "admitted r"
  shows "\<exists>it e. NewImage r = Some it \<and> pipe r = [e]
           \<and> Source e = ''unicorn.contracts''
           \<and> DetailType e = ''ContractStatusChanged''
           \<and> map fst (Detail e) =
               [''property_id'', ''contract_id'', ''contract_status'',
                ''contract_last_modified_on'']
           \<and> (\<forall>a s. a \<in> {''property_id'', ''contract_id'', ''contract_status'',
                            ''contract_last_modified_on''} \<and> it a = Some (S s)
                  \<longrightarrow> map_of (Detail e) a = Some (Some s))
           \<and> (map_of (Detail e) ''contract_status'' = Some (Some ''DRAFT'')
               \<or> map_of (Detail e) ''contract_status'' = Some (Some ''APPROVED''))"
proof -
  from assms obtain it where it: "NewImage r = Some it"
    and st: "it ''contract_status'' = Some (S ''DRAFT'')
             \<or> it ''contract_status'' = Some (S ''APPROVED'')"
    by (auto simp add: admitted_iff)
  have leaf: "\<And>a s. it a = Some (S s) \<Longrightarrow> image_leaf (NewImage r) a ''S'' = Some s"
    by (simp add: image_leaf_S it)
  have p: "pipe r = [transform r]" using assms by (simp add: pipe_def)
  show ?thesis
  proof (intro exI conjI)
    show "NewImage r = Some it" by (rule it)
    show "pipe r = [transform r]" by (rule p)
    show "Source (transform r) = ''unicorn.contracts''" by (simp add: transform_eq)
    show "DetailType (transform r) = ''ContractStatusChanged''" by (simp add: transform_eq)
    show "map fst (Detail (transform r)) =
               [''property_id'', ''contract_id'', ''contract_status'',
                ''contract_last_modified_on'']" by (simp add: transform_eq)
    show "\<forall>a s. a \<in> {''property_id'', ''contract_id'', ''contract_status'',
                            ''contract_last_modified_on''} \<and> it a = Some (S s)
                  \<longrightarrow> map_of (Detail (transform r)) a = Some (Some s)"
    proof (intro allI impI)
      fix a s
      assume h: "a \<in> {''property_id'', ''contract_id'', ''contract_status'',
                        ''contract_last_modified_on''} \<and> it a = Some (S s)"
      then have l: "image_leaf (NewImage r) a ''S'' = Some s" by (simp add: leaf)
      from h consider "a = ''property_id''" | "a = ''contract_id''"
        | "a = ''contract_status''" | "a = ''contract_last_modified_on''" by blast
      then show "map_of (Detail (transform r)) a = Some (Some s)"
      proof cases
        case 1
        with l show ?thesis by (simp add: transform_eq)
      next
        case 2
        with l show ?thesis by (simp add: transform_eq)
      next
        case 3
        with l show ?thesis by (simp add: transform_eq)
      next
        case 4
        with l show ?thesis by (simp add: transform_eq)
      qed
    qed
    have ms: "map_of (Detail (transform r)) ''contract_status''
                = Some (image_leaf (NewImage r) ''contract_status'' ''S'')"
      by (simp add: transform_eq)
    from st show "map_of (Detail (transform r)) ''contract_status'' = Some (Some ''DRAFT'')
               \<or> map_of (Detail (transform r)) ''contract_status'' = Some (Some ''APPROVED'')"
      unfolding ms using leaf by blast
  qed
qed

theorem pipe_event_of_admitted_entry_witness:
  "admitted \<lparr>eventName = ''MODIFY'', OldImage = Some draft_item, NewImage = Some approved_image\<rparr>
   \<and> pipe \<lparr>eventName = ''MODIFY'', OldImage = Some draft_item, NewImage = Some approved_image\<rparr>
      = [\<lparr>Source = ''unicorn.contracts'', DetailType = ''ContractStatusChanged'',
          Detail = [(''property_id'', Some ''p1''), (''contract_id'', Some ''c1''),
                    (''contract_status'', Some ''APPROVED''),
                    (''contract_last_modified_on'', Some ''2024-01-01T00:00:00.000Z'')]\<rparr>]"
proof -
  let ?r = "\<lparr>eventName = ''MODIFY'', OldImage = Some draft_item, NewImage = Some approved_image\<rparr>"
  have a: "admitted ?r" by (simp add: admitted_iff approved_image_status)
  have i: "approved_image ''property_id'' = Some (S ''p1'')"
    "approved_image ''contract_id'' = Some (S ''c1'')"
    "approved_image ''contract_status'' = Some (S ''APPROVED'')"
    "approved_image ''contract_last_modified_on'' = Some (S ''2024-01-01T00:00:00.000Z'')"
    by (simp_all add: approved_image_def draft_item_def)
  from pipe_event_of_admitted_entry [OF a] obtain e where
    1: "pipe ?r = [e]" and 2: "Source e = ''unicorn.contracts''"
    and 3: "DetailType e = ''ContractStatusChanged''" by auto
  have "pipe ?r = [transform ?r]" using a by (simp add: pipe_def)
  then have "pipe ?r = [\<lparr>Source = ''unicorn.contracts'', DetailType = ''ContractStatusChanged'',
          Detail = [(''property_id'', Some ''p1''), (''contract_id'', Some ''c1''),
                    (''contract_status'', Some ''APPROVED''),
                    (''contract_last_modified_on'', Some ''2024-01-01T00:00:00.000Z'')]\<rparr>]"
    by (simp add: transform_eq image_leaf_def i)
  with a show ?thesis by simp
qed

section \<open>The poller of the pipe\<close>

lemma delivery_append_sel [simp]:
  "delivered (delivery_append a b) = delivered a @ delivered b"
  "dead_lettered (delivery_append a b) = dead_lettered a @ dead_lettered b"
  "attempts (delivery_append a b) = attempts a @ attempts b"
  by (simp_all add: delivery_append_def)

lemma filter_halves:
  "filter P (take n xs) @ filter P (drop n xs) = filter P xs"
  by (metis append_take_drop_id filter_append)

lemma deliver_batch_bisect:
  assumes "onPartialBatchItemFailure params = ''AUTOMATIC_BISECT''"
    and "deadLetterConfig params \<noteq> None"
  shows "delivered (deliver_batch params fails batch) = filter (\<lambda>e. \<not> fails e) batch
         \<and> dead_lettered (deliver_batch params fails batch) = filter fails batch"
  using assms
proof (induction params fails batch rule: deliver_batch.induct)
  case (1 params fails batch)
  show ?case
  proof (cases "list_ex fails batch")
    case False
    then have "\<forall>e \<in> set batch. \<not> fails e" by (simp add: list_ex_iff)
    then have "filter (\<lambda>e. \<not> fails e) batch = batch" "filter fails batch = []"
      by (simp_all add: filter_empty_conv)
    with False show ?thesis by (simp add: deliver_batch.simps [of params fails batch])
  next
    case True
    show ?thesis
    proof (cases "1 < length batch")
      case split: True
      with True "1.IH" "1.prems" show ?thesis
        by (simp add: deliver_batch.simps [of params fails batch] filter_halves
           )
    next
      case single: False
      with True obtain e where e: "batch = [e]" "fails e"
        by (cases batch) (auto simp add: list_ex_iff)
      with "1.prems" show ?thesis
        by (simp add: deliver_batch.simps [of params fails "[e]"])
    qed
  qed
qed

lemma poll_bisect:
  assumes "onPartialBatchItemFailure params = ''AUTOMATIC_BISECT''"
    and "deadLetterConfig params \<noteq> None"
    and "0 < batchSize params"
  shows "delivered (poll params fails entries) = filter (\<lambda>e. \<not> fails e) entries
         \<and> dead_lettered (poll params fails entries) = filter fails entries"
  using assms
proof (induction params fails entries rule: poll.induct)
  case (1 params fails entries)
  show ?case
  proof (cases "entries = []")
    case True
    then show ?thesis by (simp add: poll.simps [of params fails "[]"])
  next
    case False
    with "1.prems" "1.IH" show ?thesis
      by (simp add: poll.simps [of params fails entries] deliver_batch_bisect filter_halves)
  qed
qed

lemma poll_single_attempts:
  assumes "batchSize params = 1"
  shows "attempts (poll params fails entries) =
           concat (map (\<lambda>e. if fails e then replicate (1 + maximumRetryAttempts params) [e]
                             else [[e]]) entries)"
  using assms
proof (induction entries)
  case Nil
  show ?case by (simp add: poll.simps [of params fails "[]"])
next
  case (Cons e es)
  then show ?case
    by (simp add: poll.simps [of params fails "e # es"] deliver_batch.simps [of params fails "[e]"])
qed

lemma configured_parameters:
  "onPartialBatchItemFailure dynamoDbStreamParameters = ''AUTOMATIC_BISECT''"
  "deadLetterConfig dynamoDbStreamParameters \<noteq> None"
  "batchSize dynamoDbStreamParameters = 1"
  "maximumRetryAttempts dynamoDbStreamParameters = 3"
  by (simp_all add: dynamoDbStreamParameters_def)

text \<open>
  Claim C9. With the source parameters of the pipe (three retries, a dead-letter queue,
  \<^verbatim>\<open>AUTOMATIC_BISECT\<close>, batches of one entry), whatever entries keep failing: every entry
  that does not fail is delivered, in order; every entry that keeps failing is attempted
  four times (once, and three retries) and is then handed to the dead-letter queue, and
  the entries after it are still processed. With a larger batch size and the other
  parameters unchanged, bisection isolates the failing entries in the same way.
\<close>

theorem failing_entry_retried_then_dead_lettered:
  "delivered (poll dynamoDbStreamParameters fails entries) = filter (\<lambda>e. \<not> fails e) entries
   \<and> dead_lettered (poll dynamoDbStreamParameters fails entries) = filter fails entries
   \<and> attempts (poll dynamoDbStreamParameters fails entries) =
        concat (map (\<lambda>e. if fails e then replicate 4 [e] else [[e]]) entries)
   \<and> (\<forall>n. 0 < n \<longrightarrow>
          delivered (poll (dynamoDbStreamParameters\<lparr>batchSize := n\<rparr>) fails entries)
            = filter (\<lambda>e. \<not> fails e) entries
          \<and> dead_lettered (poll (dynamoDbStreamParameters\<lparr>batchSize := n\<rparr>) fails entries)
            = filter fails entries)"
proof -
  have 1: "delivered (poll dynamoDbStreamParameters fails entries)
             = filter (\<lambda>e. \<not> fails e) entries"
    by (simp add: poll_bisect configured_parameters)
  have 2: "dead_lettered (poll dynamoDbStreamParameters fails entries) = filter fails entries"
    by (simp add: poll_bisect configured_parameters)
  have 3: "attempts (poll dynamoDbStreamParameters fails entries) =
        concat (map (\<lambda>e. if fails e then replicate 4 [e] else [[e]]) entries)"
    by (simp add: poll_single_attempts configured_parameters cong: if_cong)
  have 4: "delivered (poll (dynamoDbStreamParameters\<lparr>batchSize := n\<rparr>) fails entries)
            = filter (\<lambda>e. \<not> fails e) entries
          \<and> dead_lettered (poll (dynamoDbStreamParameters\<lparr>batchSize := n\<rparr>) fails entries)
            = filter fails entries" if n: "0 < n" for n
  proof -
    have b: "onPartialBatchItemFailure (dynamoDbStreamParameters\<lparr>batchSize := n\<rparr>)
               = ''AUTOMATIC_BISECT''"
      and d: "deadLetterConfig (dynamoDbStreamParameters\<lparr>batchSize := n\<rparr>) \<noteq> None"
      and s: "0 < batchSize (dynamoDbStreamParameters\<lparr>batchSize := n\<rparr>)"
      using n by (simp_all add: configured_parameters)
    from poll_bisect [OF b d s] show ?thesis .
  qed
  from 1 2 3 4 show ?thesis by blast
qed

theorem failing_entry_retried_then_dead_lettered_witness:
  "delivered (poll dynamoDbStreamParameters ((=) 2) [1, 2, 3 :: nat]) = [1, 3]
   \<and> dead_lettered (poll dynamoDbStreamParameters ((=) 2) [1, 2, 3 :: nat]) = [2]
   \<and> attempts (poll dynamoDbStreamParameters ((=) 2) [1, 2, 3 :: nat])
       = [[1], [2], [2], [2], [2], [3]]
   \<and> (0 :: nat) < 2
   \<and> delivered (poll (dynamoDbStreamParameters\<lparr>batchSize := 2\<rparr>) ((=) 2) [1, 2, 3 :: nat])
       = [1, 3]
   \<and> dead_lettered (poll (dynamoDbStreamParameters\<lparr>batchSize := 2\<rparr>) ((=) 2) [1, 2, 3 :: nat])
       = [2]"
proof -
  note t = failing_entry_retried_then_dead_lettered [of "(=) 2" "[1, 2, 3 :: nat]"]
  have r: "replicate 4 [2 :: nat] = [[2], [2], [2], [2]]"
    by (simp add: numeral_eq_Suc)
  from t have 1: "delivered (poll dynamoDbStreamParameters ((=) 2) [1, 2, 3 :: nat]) = [1, 3]"
    and 2: "dead_lettered (poll dynamoDbStreamParameters ((=) 2) [1, 2, 3 :: nat]) = [2]"
    and 3: "attempts (poll dynamoDbStreamParameters ((=) 2) [1, 2, 3 :: nat])
       = [[1], [2], [2], [2], [2], [3]]"
    by (simp_all add: r)
  have n: "(0 :: nat) < 2" by simp
  from t have "(0 :: nat) < 2 \<longrightarrow>
          delivered (poll (dynamoDbStreamParameters\<lparr>batchSize := 2\<rparr>) ((=) 2) [1, 2, 3 :: nat])
            = filter (\<lambda>e. \<not> 2 = e) [1, 2, 3]
          \<and> dead_lettered (poll (dynamoDbStreamParameters\<lparr>batchSize := 2\<rparr>) ((=) 2)
               [1, 2, 3 :: nat]) = filter ((=) 2) [1, 2, 3]"
    by blast
  with n have 4: "delivered (poll (dynamoDbStreamParameters\<lparr>batchSize := 2\<rparr>) ((=) 2)
                     [1, 2, 3 :: nat]) = [1, 3]"
    and 5: "dead_lettered (poll (dynamoDbStreamParameters\<lparr>batchSize := 2\<rparr>) ((=) 2)
               [1, 2, 3 :: nat]) = [2]"
    by simp_all
  from 1 2 3 n 4 5 show ?thesis by (simp only: simp_thms)
qed

end
